theory Spec2Isabelle
  imports Complex_Main "HOL-Library.Word" "HOL-Library.AList"
begin

section \<open>Values shared by the download manager and the library\<close>

text \<open>
  A C++ \<open>double\<close>. Finite values are kept as the rational they denote; the two
  infinities and the quiet NaN are values of their own. Negative zero is not
  distinguished from zero: every double of this program comes from a non-negative
  decimal string.
\<close>

datatype double = Fin rat | PInf | NInf | NaN

text \<open>The translated text of a message key, as \<open>gt(key)\<close> returns it.\<close>

datatype message = gt string

text \<open>
  What a call can end with instead of a value. The first five are the C++
  exception classes the sources throw or catch (\<open>runtime_error\<close> stands for any
  other exception derived from \<open>std::exception\<close>, which is what the engines
  throw); the last two are the faults of reading \<open>QList\<close> past its end and of
  calling through a null \<open>mp_downloader\<close>, which no handler catches.
\<close>

datatype error =
    KiwixAppError message message
  | AriaError
  | out_of_range
  | invalid_argument string
  | runtime_error
  | index_out_of_range
  | null_dereference

text \<open>
  The numeric services of the platform that the sources call but do not define:
  the IEEE rounding of an exact finite result to a double (an infinity on
  overflow), \<open>QString::number(x, 'g', 3)\<close> on a finite \<open>x\<close>, and
  \<open>QString::toDouble\<close> on the text of a finite number.
\<close>

record numerics =
  round_double :: "rat \<Rightarrow> double"
  number_g3 :: "rat \<Rightarrow> string"
  toDouble_text :: "string \<Rightarrow> double"

text \<open>\<open>QString::number(d, 'g', 3)\<close>: Qt prints the special values by name.\<close>

definition QString_number :: "numerics \<Rightarrow> double \<Rightarrow> string" where
  "QString_number N d =
     (case d of Fin r \<Rightarrow> number_g3 N r | PInf \<Rightarrow> ''inf'' | NInf \<Rightarrow> ''-inf'' | NaN \<Rightarrow> ''nan'')"

text \<open>\<open>QString::toDouble\<close>: Qt reads the names of the special values back.\<close>

definition QString_toDouble :: "numerics \<Rightarrow> string \<Rightarrow> double" where
  "QString_toDouble N s =
     (if s = ''nan'' then NaN
      else if s = ''inf'' \<or> s = ''+inf'' then PInf
      else if s = ''-inf'' then NInf
      else toDouble_text N s)"

text \<open>
  \<open>toDouble\<close> on the decimal text of a natural number: exact below \<open>2^53\<close>,
  rounded above.
\<close>

definition toDouble :: "numerics \<Rightarrow> nat \<Rightarrow> double" where
  "toDouble N n = (if n < 2 ^ 53 then Fin (of_nat n) else round_double N (of_nat n))"

text \<open>Division and multiplication of doubles, with the IEEE special cases.\<close>

fun ddiv :: "numerics \<Rightarrow> double \<Rightarrow> double \<Rightarrow> double" where
  "ddiv N NaN y = NaN"
| "ddiv N x NaN = NaN"
| "ddiv N (Fin a) (Fin b) =
     (if b = 0 then (if a = 0 then NaN else if 0 < a then PInf else NInf)
      else round_double N (a / b))"
| "ddiv N (Fin a) PInf = Fin 0"
| "ddiv N (Fin a) NInf = Fin 0"
| "ddiv N PInf (Fin b) = (if 0 \<le> b then PInf else NInf)"
| "ddiv N NInf (Fin b) = (if 0 \<le> b then NInf else PInf)"
| "ddiv N PInf PInf = NaN"
| "ddiv N PInf NInf = NaN"
| "ddiv N NInf PInf = NaN"
| "ddiv N NInf NInf = NaN"

fun dmul :: "numerics \<Rightarrow> double \<Rightarrow> double \<Rightarrow> double" where
  "dmul N NaN y = NaN"
| "dmul N x NaN = NaN"
| "dmul N (Fin a) (Fin b) = round_double N (a * b)"
| "dmul N (Fin a) PInf = (if a = 0 then NaN else if 0 < a then PInf else NInf)"
| "dmul N (Fin a) NInf = (if a = 0 then NaN else if 0 < a then NInf else PInf)"
| "dmul N PInf (Fin b) = (if b = 0 then NaN else if 0 < b then PInf else NInf)"
| "dmul N NInf (Fin b) = (if b = 0 then NaN else if 0 < b then NInf else PInf)"
| "dmul N PInf PInf = PInf"
| "dmul N PInf NInf = NInf"
| "dmul N NInf PInf = NInf"
| "dmul N NInf NInf = PInf"

section \<open>downloadmanagement.cpp: DownloadState\<close>

subsection \<open>convertToUnits\<close>

definition units :: "string list" where
  "units = [''bytes'', ''KB'', ''MB'', ''GB'', ''TB'', ''PB'', ''EB'']"

text \<open>The loop test \<open>bytes >= 1024\<close>: false on NaN.\<close>

fun ge_1024 :: "double \<Rightarrow> bool" where
  "ge_1024 (Fin r) = (1024 \<le> r)"
| "ge_1024 PInf = True"
| "ge_1024 NInf = False"
| "ge_1024 NaN = False"

text \<open>
  The loop body \<open>bytes /= 1024\<close>. Dividing a double that is at least 1024 by a
  power of two changes its exponent only, so the quotient is exact.
\<close>

fun div_1024 :: "double \<Rightarrow> double" where
  "div_1024 (Fin r) = Fin (r / 1024)"
| "div_1024 PInf = PInf"
| "div_1024 NInf = NInf"
| "div_1024 NaN = NaN"

text \<open>
  The \<open>while\<close> loop of \<open>convertToUnits\<close>, with its test as written:
  \<open>bytes >= 1024 && unitIndex < units.size()\<close>. It returns the scaled value and
  the index the loop ends with.
\<close>

function convertToUnits_loop :: "double \<Rightarrow> nat \<Rightarrow> double \<times> nat" where
  "convertToUnits_loop bytes unitIndex =
     (if ge_1024 bytes \<and> unitIndex < length units
      then convertToUnits_loop (div_1024 bytes) (unitIndex + 1)
      else (bytes, unitIndex))"
  by pat_completeness auto
termination
  by (relation "measure (\<lambda>(bytes, unitIndex). length units - unitIndex)") auto

declare convertToUnits_loop.simps [simp del]

text \<open>
  \<open>convertToUnits\<close>: the text of the scaled value, a space and \<open>units[unitIndex]\<close>.
  \<open>QStringList::operator[]\<close> has no defined result past the end of the list; the
  model returns \<open>index_out_of_range\<close> there.
\<close>

definition convertToUnits :: "numerics \<Rightarrow> double \<Rightarrow> error + string" where
  "convertToUnits N bytes =
     (case convertToUnits_loop bytes 0 of
        (scaled, unitIndex) \<Rightarrow>
          (let preciseBytes = QString_number N scaled
           in if unitIndex < length units
              then Inr (preciseBytes @ '' '' @ units ! unitIndex)
              else Inl index_out_of_range))"

subsection \<open>DownloadState::update\<close>

text \<open>
  \<open>DownloadInfo\<close>, the map that \<open>getDownloadInfo\<close> builds. Its numeric entries are
  the decimal texts that \<open>QString::number\<close> makes of the engine's unsigned
  counters; the record keeps the number each text denotes.
\<close>

record DownloadInfo =
  info_status :: string
  info_completedLength :: nat
  info_totalLength :: nat
  info_downloadSpeed :: nat
  info_path :: string

text \<open>
  Modelled from the spec: \<open>DownloadState\<close> is declared in downloadmanagement.h,
  which is not among the sources. The spec gives its four fields, and
  \<open>update\<close> assigns them in this order.
\<close>

record DownloadState =
  percentComplete :: double
  completedSizeText :: string
  downloadSpeedText :: string
  paused :: bool

definition update :: "numerics \<Rightarrow> DownloadInfo \<Rightarrow> error + DownloadState" where
  "update N downloadInfos =
     (let percent = ddiv N (toDouble N (info_completedLength downloadInfos))
                           (toDouble N (info_totalLength downloadInfos));
          percent = dmul N percent (Fin 100);
          percent = QString_toDouble N (QString_number N percent)
      in case convertToUnits N (toDouble N (info_completedLength downloadInfos)) of
           Inl e \<Rightarrow> Inl e
         | Inr completedLength \<Rightarrow>
             (case convertToUnits N (toDouble N (info_downloadSpeed downloadInfos)) of
                Inl e \<Rightarrow> Inl e
              | Inr speed \<Rightarrow>
                  Inr \<lparr>percentComplete = percent,
                       completedSizeText = completedLength,
                       downloadSpeedText = speed @ ''/s'',
                       paused = (info_status downloadInfos = ''paused'')\<rparr>))"

section \<open>The external engines\<close>

text \<open>
  \<open>kiwix::Book\<close>, as far as the sources read it. The size is the
  \<open>uint64_t\<close> that \<open>getSize\<close> returns.
\<close>

record Book =
  getId :: string
  getDownloadId :: string
  getUrl :: string
  getPath :: string
  getSize :: "64 word"

text \<open>
  The archive and library engine (\<open>kiwix::Library\<close>, the file reading of
  \<open>kiwix::Manager\<close>) and the directory listing of \<open>QDir\<close> are not part of
  the sources. They are operations on a state \<open>'w\<close> of the world outside, which
  every function of \<open>Library\<close> takes as a parameter. The two lookups raise
  \<open>std::out_of_range\<close> when there is no such book, which is what the sources
  catch.
\<close>

record 'w archive_engine =
  kx_getBookByPath :: "'w \<Rightarrow> string \<Rightarrow> error + Book"
  kx_getBookById :: "'w \<Rightarrow> string \<Rightarrow> error + Book"
  kx_getBooksIds :: "'w \<Rightarrow> string list"
  kx_addBook :: "'w \<Rightarrow> Book \<Rightarrow> bool \<times> 'w"
  kx_removeBookById :: "'w \<Rightarrow> string \<Rightarrow> bool \<times> 'w"
  kx_readBookFromPath :: "'w \<Rightarrow> string \<Rightarrow> Book option"
  qdir_entryList :: "'w \<Rightarrow> string \<Rightarrow> string list"

text \<open>\<open>kiwix::Download::StatusResult\<close>.\<close>

datatype StatusResult =
  K_ACTIVE | K_WAITING | K_PAUSED | K_ERROR | K_COMPLETE | K_REMOVED | K_UNKNOWN

text \<open>
  A \<open>kiwix::Download\<close> handle: the download id and the values the engine last
  reported for it. The three counters are \<open>uint64_t\<close>.
\<close>

record Download =
  getDid :: string
  getStatus :: StatusResult
  getCompletedLength :: "64 word"
  getTotalLength :: "64 word"
  getDownloadSpeed :: "64 word"
  getPath_d :: string

text \<open>
  The download engine (\<open>kiwix::Downloader\<close> and the methods of its handles that
  talk to aria2), as operations on an engine state \<open>'e\<close>. Each can raise.
\<close>

record 'e download_engine =
  eng_getDownload :: "'e \<Rightarrow> string \<Rightarrow> (error + Download) \<times> 'e"
  eng_startDownload :: "'e \<Rightarrow> string \<Rightarrow> (string \<times> string) list \<Rightarrow> (error + Download) \<times> 'e"
  eng_updateStatus :: "'e \<Rightarrow> Download \<Rightarrow> bool \<Rightarrow> (error + Download) \<times> 'e"
  eng_pauseDownload :: "'e \<Rightarrow> Download \<Rightarrow> (error + unit) \<times> 'e"
  eng_resumeDownload :: "'e \<Rightarrow> Download \<Rightarrow> (error + unit) \<times> 'e"
  eng_cancelDownload :: "'e \<Rightarrow> Download \<Rightarrow> (error + unit) \<times> 'e"

text \<open>
  What \<open>QFileInfo\<close> and \<open>QStorageInfo\<close> answer for a directory.
  \<open>bytesAvailable\<close> is a \<open>qint64\<close>, \<open>-1\<close> when the volume is not valid.
\<close>

record storage =
  isDir :: "string \<Rightarrow> bool"
  isWritable :: "string \<Rightarrow> bool"
  bytesAvailable :: "string \<Rightarrow> 64 word"

text \<open>
  An exception, which \<open>catch (...)\<close> and \<open>catch (std::exception&)\<close> both
  catch, as opposed to a fault.
\<close>

definition is_exception :: "error \<Rightarrow> bool" where
  "is_exception e = (e \<noteq> index_out_of_range \<and> e \<noteq> null_dereference)"

section \<open>library.cpp\<close>

text \<open>What a function of \<open>Library\<close> does to the outside: a signal or a file written.\<close>

datatype effect =
    booksChanged
  | bookmarksChanged
  | writeToFile string
  | writeBookmarksToFile string

text \<open>
  The \<open>Library\<close> object: the engine's library \<open>m_library\<close> with the world it
  lives in, the library directory, the recorded files of the monitored
  directory, and the effects so far, oldest first.
\<close>

record 'w Library =
  m_library :: 'w
  m_libraryDirectory :: string
  m_monitorDirZims :: "string list"
  effects :: "effect list"

definition emit :: "effect \<Rightarrow> 'w Library \<Rightarrow> 'w Library" where
  "emit x lib = lib\<lparr>effects := effects lib @ [x]\<rparr>"

text \<open>\<open>kiwix::appendToDirectory\<close>.\<close>

definition appendToDirectory :: "string \<Rightarrow> string \<Rightarrow> string" where
  "appendToDirectory directoryPath filename = directoryPath @ ''/'' @ filename"

definition save :: "'w Library \<Rightarrow> 'w Library" where
  "save lib =
     emit (writeBookmarksToFile (appendToDirectory (m_libraryDirectory lib) ''library.bookmarks.xml''))
       (emit (writeToFile (appendToDirectory (m_libraryDirectory lib) ''library.xml'')) lib)"

text \<open>
  \<open>kiwix::Manager::addBookFromPathAndGetId\<close> with a manipulator: the manager
  reads the book from the file; when it can, it hands the book to the
  manipulator and returns the book's id, and otherwise it returns the empty id.
\<close>

definition Manager_addBookFromPathAndGetId ::
  "'w archive_engine \<Rightarrow> ('w Library \<Rightarrow> Book \<Rightarrow> bool \<times> 'w Library) \<Rightarrow>
   'w Library \<Rightarrow> string \<Rightarrow> string \<times> 'w Library" where
  "Manager_addBookFromPathAndGetId K manipulator lib pathToOpen =
     (case kx_readBookFromPath K (m_library lib) pathToOpen of
        None \<Rightarrow> ([], lib)
      | Some book \<Rightarrow> (getId book, snd (manipulator lib book)))"

text \<open>\<open>kiwix::Manager::addBookFromPath\<close>: whether the id is not empty.\<close>

definition Manager_addBookFromPath ::
  "'w archive_engine \<Rightarrow> ('w Library \<Rightarrow> Book \<Rightarrow> bool \<times> 'w Library) \<Rightarrow>
   'w Library \<Rightarrow> string \<Rightarrow> bool \<times> 'w Library" where
  "Manager_addBookFromPath K manipulator lib pathToOpen =
     (case Manager_addBookFromPathAndGetId K manipulator lib pathToOpen of
        (id', lib') \<Rightarrow> (id' \<noteq> [], lib'))"

text \<open>
  The engine's own manipulator, which a manager built on \<open>&m_library\<close> uses: it
  adds the book and nothing else.
\<close>

definition kiwix_addBookToLibrary ::
  "'w archive_engine \<Rightarrow> 'w Library \<Rightarrow> Book \<Rightarrow> bool \<times> 'w Library" where
  "kiwix_addBookToLibrary K lib book =
     (case kx_addBook K (m_library lib) book of
        (ret, w) \<Rightarrow> (ret, lib\<lparr>m_library := w\<rparr>))"

text \<open>\<open>LibraryManipulator::addBookToLibrary\<close>: adds the book and emits \<open>booksChanged\<close>.\<close>

definition addBookToLibrary ::
  "'w archive_engine \<Rightarrow> 'w Library \<Rightarrow> Book \<Rightarrow> bool \<times> 'w Library" where
  "addBookToLibrary K lib book =
     (case kx_addBook K (m_library lib) book of
        (ret, w) \<Rightarrow> (ret, emit booksChanged (lib\<lparr>m_library := w\<rparr>)))"

definition openBookFromPath ::
  "'w archive_engine \<Rightarrow> 'w Library \<Rightarrow> string \<Rightarrow> (error + string) \<times> 'w Library" where
  "openBookFromPath K lib zimPath =
     (case kx_getBookByPath K (m_library lib) zimPath of
        Inr book \<Rightarrow> (Inr (getId book), lib)
      | Inl e \<Rightarrow>
          if e \<noteq> out_of_range then (Inl e, lib)
          else
            (case Manager_addBookFromPathAndGetId K (kiwix_addBookToLibrary K) lib zimPath of
               (id', lib') \<Rightarrow>
                 if id' = [] then (Inl (invalid_argument ''invalid zim file''), lib')
                 else (Inr id', emit booksChanged (save lib'))))"

definition getBookIds :: "'w archive_engine \<Rightarrow> 'w Library \<Rightarrow> string list" where
  "getBookIds K lib = kx_getBooksIds K (m_library lib)"

definition removeBookFromLibraryById ::
  "'w archive_engine \<Rightarrow> 'w Library \<Rightarrow> string \<Rightarrow> 'w Library" where
  "removeBookFromLibraryById K lib id' =
     lib\<lparr>m_library := snd (kx_removeBookById K (m_library lib) id')\<rparr>"

definition setMonitorDirZims :: "'w Library \<Rightarrow> string list \<Rightarrow> 'w Library" where
  "setMonitorDirZims lib zimList = lib\<lparr>m_monitorDirZims := zimList\<rparr>"

definition getBookById :: "'w archive_engine \<Rightarrow> 'w Library \<Rightarrow> string \<Rightarrow> error + Book" where
  "getBookById K lib id' = kx_getBookById K (m_library lib) id'"

subsection \<open>loadMonitorDir\<close>

text \<open>
  A \<open>QSet<QString>\<close> is kept as a list without repetitions; \<open>values()\<close>
  enumerates it in an order the program does not choose, here the order of the
  list.
\<close>

definition QSet_fromList :: "string list \<Rightarrow> string list" where
  "QSet_fromList xs = remdups xs"

definition QSet_minus :: "string list \<Rightarrow> string list \<Rightarrow> string list" where
  "QSet_minus a b = filter (\<lambda>x. x \<notin> set b) a"

definition QDir_separator :: string where
  "QDir_separator = ''/''"

text \<open>The first loop: \<open>manager.addBookFromPath\<close> for each added file.\<close>

fun add_loop :: "'w archive_engine \<Rightarrow> 'w Library \<Rightarrow> string list \<Rightarrow> 'w Library" where
  "add_loop K lib [] = lib"
| "add_loop K lib (book # rest) =
     add_loop K (snd (Manager_addBookFromPath K (addBookToLibrary K) lib book)) rest"

text \<open>
  The second loop: look the book of each removed file up by its path and remove
  it by its id. The lookup is not inside a \<open>try\<close>: when it raises, the loop
  and the function end there.
\<close>

fun remove_loop ::
  "'w archive_engine \<Rightarrow> 'w Library \<Rightarrow> string list \<Rightarrow> (error + unit) \<times> 'w Library" where
  "remove_loop K lib [] = (Inr (), lib)"
| "remove_loop K lib (bookPath # rest) =
     (case kx_getBookByPath K (m_library lib) bookPath of
        Inl e \<Rightarrow> (Inl e, lib)
      | Inr book \<Rightarrow> remove_loop K (removeBookFromLibraryById K lib (getId book)) rest)"

text \<open>
  The set of files in the directory, and the files added and removed, as
  \<open>loadMonitorDir\<close> computes them from the directory's entries and the recorded
  list.
\<close>

definition newDir_of :: "'w archive_engine \<Rightarrow> 'w Library \<Rightarrow> string \<Rightarrow> string list" where
  "newDir_of K lib monitorDir =
     QSet_fromList (map (\<lambda>str. monitorDir @ QDir_separator @ str)
                        (qdir_entryList K (m_library lib) monitorDir))"

definition addedZims_of :: "'w archive_engine \<Rightarrow> 'w Library \<Rightarrow> string \<Rightarrow> string list" where
  "addedZims_of K lib monitorDir =
     QSet_minus (newDir_of K lib monitorDir) (QSet_fromList (m_monitorDirZims lib))"

definition removedZims_of :: "'w archive_engine \<Rightarrow> 'w Library \<Rightarrow> string \<Rightarrow> string list" where
  "removedZims_of K lib monitorDir =
     QSet_minus (QSet_fromList (m_monitorDirZims lib)) (newDir_of K lib monitorDir)"

text \<open>
  \<open>loadMonitorDir\<close>, one invocation running alone. The mutex it locks is a
  local variable of the invocation and plays no part here.
\<close>

definition loadMonitorDir ::
  "'w archive_engine \<Rightarrow> 'w Library \<Rightarrow> string \<Rightarrow> (error + unit) \<times> 'w Library" where
  "loadMonitorDir K lib monitorDir =
     (let newDir = newDir_of K lib monitorDir;
          addedZims = addedZims_of K lib monitorDir;
          removedZims = removedZims_of K lib monitorDir;
          lib1 = setMonitorDirZims lib newDir;
          lib2 = add_loop K lib1 addedZims
      in case remove_loop K lib2 removedZims of
           (Inl e, lib3) \<Rightarrow> (Inl e, lib3)
         | (Inr u, lib3) \<Rightarrow> (Inr (), save (emit booksChanged lib3)))"

section \<open>downloadmanagement.cpp: DownloadManager\<close>

text \<open>The signals of the download manager.\<close>

datatype signal =
    downloadUpdated string DownloadInfo
  | downloadDisappeared string

text \<open>
  Modelled from the spec: the type of \<open>m_downloads\<close> is declared in
  downloadmanagement.h, which is not among the sources. The spec describes it as
  a mapping from book id to snapshot; the sources use its \<open>set\<close>, \<open>keys\<close> and
  \<open>remove\<close>. It is kept as an association list with one entry for each key.
\<close>

type_synonym Downloads = "(string \<times> DownloadState) list"

definition Downloads_set :: "string \<Rightarrow> DownloadState \<Rightarrow> Downloads \<Rightarrow> Downloads" where
  "Downloads_set bookId d m = AList.update bookId d m"

definition Downloads_keys :: "Downloads \<Rightarrow> string list" where
  "Downloads_keys m = map fst m"

definition Downloads_remove :: "string \<Rightarrow> Downloads \<Rightarrow> Downloads" where
  "Downloads_remove bookId m = AList.delete bookId m"

text \<open>
  Modelled from the spec: a default-constructed \<open>DownloadState\<close>, the fresh,
  unpopulated snapshot (the initialisers are in downloadmanagement.h).
\<close>

definition DownloadState_default :: DownloadState where
  "DownloadState_default =
     \<lparr>percentComplete = Fin 0, completedSizeText = [], downloadSpeedText = [], paused = False\<rparr>"

text \<open>
  The \<open>DownloadManager\<close> object: the library it reads, the download engine
  (\<open>None\<close> for a null \<open>mp_downloader\<close>), the registry and the signals emitted
  so far, oldest first.
\<close>

record ('w, 'e) DownloadManager =
  mp_library :: "'w Library"
  mp_downloader :: "'e option"
  m_downloads :: Downloads
  emitted :: "signal list"

text \<open>The book a signal is about.\<close>

fun about :: "signal \<Rightarrow> string" where
  "about (downloadUpdated bookId downloadInfo) = bookId"
| "about (downloadDisappeared bookId) = bookId"

definition emit_signal ::
  "signal \<Rightarrow> ('w, 'e) DownloadManager \<Rightarrow> ('w, 'e) DownloadManager" where
  "emit_signal x dm = dm\<lparr>emitted := emitted dm @ [x]\<rparr>"

definition downloadingFunctionalityAvailable :: "('w, 'e) DownloadManager \<Rightarrow> bool" where
  "downloadingFunctionalityAvailable dm = (mp_downloader dm \<noteq> None)"

text \<open>The loop body of \<open>restoreDownloads\<close>, and the loop over the book ids.\<close>

definition restoreDownloads_step ::
  "'w archive_engine \<Rightarrow> ('w, 'e) DownloadManager \<Rightarrow> string \<Rightarrow>
   (error + unit) \<times> ('w, 'e) DownloadManager" where
  "restoreDownloads_step K dm bookId =
     (case getBookById K (mp_library dm) bookId of
        Inl e \<Rightarrow> (Inl e, dm)
      | Inr book \<Rightarrow>
          if getDownloadId book \<noteq> []
          then (Inr (), dm\<lparr>m_downloads :=
                  Downloads_set bookId (DownloadState_default\<lparr>paused := True\<rparr>) (m_downloads dm)\<rparr>)
          else (Inr (), dm))"

fun restoreDownloads_loop ::
  "'w archive_engine \<Rightarrow> ('w, 'e) DownloadManager \<Rightarrow> string list \<Rightarrow>
   (error + unit) \<times> ('w, 'e) DownloadManager" where
  "restoreDownloads_loop K dm [] = (Inr (), dm)"
| "restoreDownloads_loop K dm (bookId # rest) =
     (case restoreDownloads_step K dm bookId of
        (Inl e, dm') \<Rightarrow> (Inl e, dm')
      | (Inr u, dm') \<Rightarrow> restoreDownloads_loop K dm' rest)"

definition restoreDownloads ::
  "'w archive_engine \<Rightarrow> ('w, 'e) DownloadManager \<Rightarrow> (error + unit) \<times> ('w, 'e) DownloadManager" where
  "restoreDownloads K dm = restoreDownloads_loop K dm (getBookIds K (mp_library dm))"

fun downloadStatus2QString :: "StatusResult \<Rightarrow> string" where
  "downloadStatus2QString K_ACTIVE = ''active''"
| "downloadStatus2QString K_WAITING = ''waiting''"
| "downloadStatus2QString K_PAUSED = ''paused''"
| "downloadStatus2QString K_ERROR = ''error''"
| "downloadStatus2QString K_COMPLETE = ''completed''"
| "downloadStatus2QString K_REMOVED = ''removed''"
| "downloadStatus2QString K_UNKNOWN = ''unknown''"

definition getDownloadInfo ::
  "'w archive_engine \<Rightarrow> 'e download_engine \<Rightarrow> ('w, 'e) DownloadManager \<Rightarrow> string \<Rightarrow>
   (error + DownloadInfo) \<times> ('w, 'e) DownloadManager" where
  "getDownloadInfo K D dm bookId =
     (case getBookById K (mp_library dm) bookId of
        Inl e \<Rightarrow> (Inl e, dm)
      | Inr b \<Rightarrow>
          (case mp_downloader dm of
             None \<Rightarrow> (Inl null_dereference, dm)
           | Some eng \<Rightarrow>
               (case eng_getDownload D eng (getDownloadId b) of
                  (Inl e, eng1) \<Rightarrow> (Inl e, dm\<lparr>mp_downloader := Some eng1\<rparr>)
                | (Inr d, eng1) \<Rightarrow>
                    (case eng_updateStatus D eng1 d True of
                       (Inl e, eng2) \<Rightarrow> (Inl e, dm\<lparr>mp_downloader := Some eng2\<rparr>)
                     | (Inr d', eng2) \<Rightarrow>
                         (Inr \<lparr>info_status = downloadStatus2QString (getStatus d'),
                               info_completedLength = unat (getCompletedLength d'),
                               info_totalLength = unat (getTotalLength d'),
                               info_downloadSpeed = unat (getDownloadSpeed d'),
                               info_path = getPath_d d'\<rparr>,
                          dm\<lparr>mp_downloader := Some eng2\<rparr>)))))"

text \<open>
  The loop of \<open>updateDownloads\<close> over the keys of the registry. \<open>catch (...)\<close>
  takes every exception of the query; the body changes nothing but the signals
  (and whatever the engine does to its own state).
\<close>

fun updateDownloads_loop ::
  "'w archive_engine \<Rightarrow> 'e download_engine \<Rightarrow> ('w, 'e) DownloadManager \<Rightarrow> string list \<Rightarrow>
   (error + unit) \<times> ('w, 'e) DownloadManager" where
  "updateDownloads_loop K D dm [] = (Inr (), dm)"
| "updateDownloads_loop K D dm (bookId # rest) =
     (case getDownloadInfo K D dm bookId of
        (Inl e, dm') \<Rightarrow>
          if is_exception e
          then updateDownloads_loop K D (emit_signal (downloadDisappeared bookId) dm') rest
          else (Inl e, dm')
      | (Inr downloadInfo, dm') \<Rightarrow>
          updateDownloads_loop K D (emit_signal (downloadUpdated bookId downloadInfo) dm') rest)"

definition updateDownloads ::
  "'w archive_engine \<Rightarrow> 'e download_engine \<Rightarrow> ('w, 'e) DownloadManager \<Rightarrow>
   (error + unit) \<times> ('w, 'e) DownloadManager" where
  "updateDownloads K D dm = updateDownloads_loop K D dm (Downloads_keys (m_downloads dm))"

definition DownloadUnavailableError :: error where
  "DownloadUnavailableError =
     KiwixAppError (gt ''download-unavailable'') (gt ''download-unavailable-text'')"

definition checkThatBookCanBeSaved :: "storage \<Rightarrow> Book \<Rightarrow> string \<Rightarrow> error + unit" where
  "checkThatBookCanBeSaved S book targetDir =
     (if \<not> isDir S targetDir
      then Inl (KiwixAppError (gt ''download-storage-error'') (gt ''download-dir-missing''))
      else if \<not> isWritable S targetDir
      then Inl (KiwixAppError (gt ''download-storage-error'') (gt ''download-dir-not-writable''))
      else if bytesAvailable S targetDir = - 1 \<or> getSize book > bytesAvailable S targetDir
      then Inl (KiwixAppError (gt ''download-storage-error'') (gt ''download-storage-error-text''))
      else Inr ())"

definition startDownload ::
  "'e download_engine \<Rightarrow> storage \<Rightarrow> ('w, 'e) DownloadManager \<Rightarrow> Book \<Rightarrow> string \<Rightarrow>
   (error + string) \<times> ('w, 'e) DownloadManager" where
  "startDownload D S dm book downloadDirPath =
     (if \<not> downloadingFunctionalityAvailable dm then (Inl DownloadUnavailableError, dm)
      else
        (case checkThatBookCanBeSaved S book downloadDirPath of
           Inl e \<Rightarrow> (Inl e, dm)
         | Inr u \<Rightarrow>
             (let url = getUrl book;
                  bookId = getId book;
                  downloadOptions = [(''dir'', downloadDirPath)]
              in case mp_downloader dm of
                   None \<Rightarrow> (Inl null_dereference, dm)
                 | Some eng \<Rightarrow>
                     (case eng_startDownload D eng url downloadOptions of
                        (Inl e, eng1) \<Rightarrow>
                          (Inl (if is_exception e then DownloadUnavailableError else e),
                           dm\<lparr>mp_downloader := Some eng1\<rparr>)
                      | (Inr d, eng1) \<Rightarrow>
                          (Inr (getDid d),
                           dm\<lparr>mp_downloader := Some eng1,
                              m_downloads :=
                                Downloads_set bookId DownloadState_default (m_downloads dm)\<rparr>)))))"

definition pauseDownload ::
  "'w archive_engine \<Rightarrow> 'e download_engine \<Rightarrow> ('w, 'e) DownloadManager \<Rightarrow> string \<Rightarrow>
   (error + unit) \<times> ('w, 'e) DownloadManager" where
  "pauseDownload K D dm bookId =
     (case getBookById K (mp_library dm) bookId of
        Inl e \<Rightarrow> (Inl e, dm)
      | Inr book \<Rightarrow>
          if getDownloadId book = [] then (Inr (), dm)
          else
            (case mp_downloader dm of
               None \<Rightarrow> (Inl null_dereference, dm)
             | Some eng \<Rightarrow>
                 (case eng_getDownload D eng (getDownloadId book) of
                    (Inl e, eng1) \<Rightarrow> (Inl e, dm\<lparr>mp_downloader := Some eng1\<rparr>)
                  | (Inr download, eng1) \<Rightarrow>
                      if getStatus download = K_ACTIVE
                      then
                        (case eng_pauseDownload D eng1 download of
                           (Inl e, eng2) \<Rightarrow>
                             (if e = AriaError then Inr () else Inl e,
                              dm\<lparr>mp_downloader := Some eng2\<rparr>)
                         | (Inr u, eng2) \<Rightarrow> (Inr (), dm\<lparr>mp_downloader := Some eng2\<rparr>))
                      else (Inr (), dm\<lparr>mp_downloader := Some eng1\<rparr>))))"

definition resumeDownload ::
  "'w archive_engine \<Rightarrow> 'e download_engine \<Rightarrow> ('w, 'e) DownloadManager \<Rightarrow> string \<Rightarrow>
   (error + unit) \<times> ('w, 'e) DownloadManager" where
  "resumeDownload K D dm bookId =
     (case getBookById K (mp_library dm) bookId of
        Inl e \<Rightarrow> (Inl e, dm)
      | Inr b \<Rightarrow>
          (case mp_downloader dm of
             None \<Rightarrow> (Inl null_dereference, dm)
           | Some eng \<Rightarrow>
               (case eng_getDownload D eng (getDownloadId b) of
                  (Inl e, eng1) \<Rightarrow> (Inl e, dm\<lparr>mp_downloader := Some eng1\<rparr>)
                | (Inr download, eng1) \<Rightarrow>
                    if getStatus download = K_PAUSED
                    then
                      (case eng_resumeDownload D eng1 download of
                         (Inl e, eng2) \<Rightarrow> (Inl e, dm\<lparr>mp_downloader := Some eng2\<rparr>)
                       | (Inr u, eng2) \<Rightarrow> (Inr (), dm\<lparr>mp_downloader := Some eng2\<rparr>))
                    else (Inr (), dm\<lparr>mp_downloader := Some eng1\<rparr>))))"

definition cancelDownload ::
  "'w archive_engine \<Rightarrow> 'e download_engine \<Rightarrow> ('w, 'e) DownloadManager \<Rightarrow> string \<Rightarrow>
   (error + bool) \<times> ('w, 'e) DownloadManager" where
  "cancelDownload K D dm bookId =
     (case getBookById K (mp_library dm) bookId of
        Inl e \<Rightarrow> (Inl e, dm)
      | Inr book \<Rightarrow>
          if getDownloadId book = [] then (Inr False, dm)
          else
            (case mp_downloader dm of
               None \<Rightarrow> (Inl null_dereference, dm)
             | Some eng \<Rightarrow>
                 (case eng_getDownload D eng (getDownloadId book) of
                    (Inl e, eng1) \<Rightarrow> (Inl e, dm\<lparr>mp_downloader := Some eng1\<rparr>)
                  | (Inr download, eng1) \<Rightarrow>
                      (case eng_cancelDownload D eng1 download of
                         (Inl e, eng2) \<Rightarrow>
                           (if e = AriaError then Inr False else Inl e,
                            dm\<lparr>mp_downloader := Some eng2\<rparr>)
                       | (Inr u, eng2) \<Rightarrow> (Inr True, dm\<lparr>mp_downloader := Some eng2\<rparr>)))))"

definition removeDownload :: "('w, 'e) DownloadManager \<Rightarrow> string \<Rightarrow> ('w, 'e) DownloadManager" where
  "removeDownload dm bookId = dm\<lparr>m_downloads := Downloads_remove bookId (m_downloads dm)\<rparr>"

section \<open>Concurrent invocations of loadMonitorDir\<close>

text \<open>
  \<open>asyncLoadMonitorDir\<close> hands each call of \<open>loadMonitorDir\<close> to a thread of the
  pool, so several invocations can be in progress at once. An invocation is in
  one of these places of the function's text:
  \<^item> \<open>at_mutex\<close>: before \<open>QMutex mutex;\<close>
  \<^item> \<open>at_locker\<close>: before \<open>QMutexLocker locker(&mutex);\<close>
  \<^item> \<open>at_entryList\<close>: before the directory is read into \<open>newDir\<close>
  \<^item> \<open>at_diff\<close>: before \<open>m_monitorDirZims\<close> is read and the two differences taken
  \<^item> \<open>at_setMonitorDirZims\<close>: before the recorded list is replaced
  \<^item> \<open>at_add\<close>, \<open>at_remove\<close>: before the first and the second loop
  \<^item> \<open>at_emit\<close>: before \<open>emit(booksChanged()); save();\<close>
  \<^item> \<open>at_unlock\<close>: before the locker's destructor runs (on return or on an exception)
  \<^item> \<open>finished\<close>.
\<close>

datatype place =
    at_mutex | at_locker | at_entryList | at_diff | at_setMonitorDirZims
  | at_add | at_remove | at_emit | at_unlock | finished

text \<open>
  One invocation: its argument, where it is, the mutex it constructed, its local
  variables and the exception it ends with, if any.
\<close>

record invocation =
  monitorDir :: string
  position :: place
  mutex :: nat
  newDir :: "string list"
  addedZims :: "string list"
  removedZims :: "string list"
  raised :: "error option"

text \<open>
  The library object that the invocations share, the mutexes now locked, the
  number of mutexes constructed so far (the next one's identity) and the
  invocations.
\<close>

record 'w pool =
  library :: "'w Library"
  locked :: "nat list"
  constructed :: nat
  invocations :: "invocation list"

definition invoke :: "string \<Rightarrow> invocation" where
  "invoke dir =
     \<lparr>monitorDir = dir, position = at_mutex, mutex = 0, newDir = [], addedZims = [],
      removedZims = [], raised = None\<rparr>"

text \<open>
  One step of invocation \<open>i\<close>: the statement at its place. \<open>QMutex mutex;\<close>
  constructs a new mutex, since \<open>mutex\<close> is a local variable; the locker waits
  (no step, \<open>None\<close>) while that mutex is locked.
\<close>

definition step :: "'w archive_engine \<Rightarrow> 'w pool \<Rightarrow> nat \<Rightarrow> 'w pool option" where
  "step K s i =
     (if length (invocations s) \<le> i then None
      else
        (let t = invocations s ! i;
             put = (\<lambda>s' t'. Some (s'\<lparr>invocations := (invocations s)[i := t']\<rparr>))
         in case position t of
              at_mutex \<Rightarrow>
                put (s\<lparr>constructed := Suc (constructed s)\<rparr>)
                    (t\<lparr>mutex := constructed s, position := at_locker\<rparr>)
            | at_locker \<Rightarrow>
                if mutex t \<in> set (locked s) then None
                else put (s\<lparr>locked := mutex t # locked s\<rparr>) (t\<lparr>position := at_entryList\<rparr>)
            | at_entryList \<Rightarrow>
                put s (t\<lparr>newDir := newDir_of K (library s) (monitorDir t), position := at_diff\<rparr>)
            | at_diff \<Rightarrow>
                put s (t\<lparr>addedZims :=
                           QSet_minus (newDir t) (QSet_fromList (m_monitorDirZims (library s))),
                         removedZims :=
                           QSet_minus (QSet_fromList (m_monitorDirZims (library s))) (newDir t),
                         position := at_setMonitorDirZims\<rparr>)
            | at_setMonitorDirZims \<Rightarrow>
                put (s\<lparr>library := setMonitorDirZims (library s) (newDir t)\<rparr>) (t\<lparr>position := at_add\<rparr>)
            | at_add \<Rightarrow>
                put (s\<lparr>library := add_loop K (library s) (addedZims t)\<rparr>) (t\<lparr>position := at_remove\<rparr>)
            | at_remove \<Rightarrow>
                (case remove_loop K (library s) (removedZims t) of
                   (Inl e, lib) \<Rightarrow> put (s\<lparr>library := lib\<rparr>) (t\<lparr>raised := Some e, position := at_unlock\<rparr>)
                 | (Inr u, lib) \<Rightarrow> put (s\<lparr>library := lib\<rparr>) (t\<lparr>position := at_emit\<rparr>))
            | at_emit \<Rightarrow>
                put (s\<lparr>library := save (emit booksChanged (library s))\<rparr>) (t\<lparr>position := at_unlock\<rparr>)
            | at_unlock \<Rightarrow>
                put (s\<lparr>locked := removeAll (mutex t) (locked s)\<rparr>) (t\<lparr>position := finished\<rparr>)
            | finished \<Rightarrow> None))"

text \<open>
  A schedule names the invocation that takes each step in turn; \<open>run\<close> follows
  it, and is \<open>None\<close> when the schedule asks a waiting or finished invocation to
  move.
\<close>

fun run :: "'w archive_engine \<Rightarrow> 'w pool \<Rightarrow> nat list \<Rightarrow> 'w pool option" where
  "run K s [] = Some s"
| "run K s (i # schedule) =
     (case step K s i of None \<Rightarrow> None | Some s' \<Rightarrow> run K s' schedule)"

text \<open>
  An invocation is inside its read-diff-write sequence from the locker's
  construction up to the locker's destruction.
\<close>

definition in_sequence :: "invocation \<Rightarrow> bool" where
  "in_sequence t =
     (position t \<in> {at_entryList, at_diff, at_setMonitorDirZims, at_add, at_remove, at_emit, at_unlock})"

definition pool_of :: "'w Library \<Rightarrow> string list \<Rightarrow> 'w pool" where
  "pool_of lib dirs = \<lparr>library = lib, locked = [], constructed = 0, invocations = map invoke dirs\<rparr>"

section \<open>Engines for the examples\<close>

text \<open>
  A plain archive engine to run the functions on: the books of the library, the
  readable archives on the disk with the book each holds, and the \<open>*.zim\<close>
  entries of each directory.
\<close>

record world =
  catalog :: "Book list"
  archives :: "(string \<times> Book) list"
  entries :: "(string \<times> string list) list"

definition plain_archive_engine :: "world archive_engine" where
  "plain_archive_engine =
     \<lparr>kx_getBookByPath =
        (\<lambda>w p. case find (\<lambda>b. getPath b = p) (catalog w) of
                  None \<Rightarrow> Inl out_of_range | Some b \<Rightarrow> Inr b),
      kx_getBookById =
        (\<lambda>w i. case find (\<lambda>b. getId b = i) (catalog w) of
                  None \<Rightarrow> Inl out_of_range | Some b \<Rightarrow> Inr b),
      kx_getBooksIds = (\<lambda>w. map getId (catalog w)),
      kx_addBook =
        (\<lambda>w b. if getId b \<in> set (map getId (catalog w)) then (False, w)
                else (True, w\<lparr>catalog := catalog w @ [b]\<rparr>)),
      kx_removeBookById =
        (\<lambda>w i. (i \<in> set (map getId (catalog w)),
                 w\<lparr>catalog := filter (\<lambda>b. getId b \<noteq> i) (catalog w)\<rparr>)),
      kx_readBookFromPath = (\<lambda>w p. map_of (archives w) p),
      qdir_entryList = (\<lambda>w d. case map_of (entries w) d of None \<Rightarrow> [] | Some l \<Rightarrow> l)\<rparr>"

text \<open>
  A plain download engine: the downloads it knows, the urls it refuses to start,
  and the downloads that have completed behind a handle that still says
  \<open>K_ACTIVE\<close>, on which pausing and cancelling raise \<open>AriaError\<close>.
\<close>

record aria =
  known :: "Download list"
  refused :: "string list"
  completed :: "string list"

definition plain_download_engine :: "aria download_engine" where
  "plain_download_engine =
     \<lparr>eng_getDownload =
        (\<lambda>e did. (case find (\<lambda>d. getDid d = did) (known e) of
                     None \<Rightarrow> Inl out_of_range | Some d \<Rightarrow> Inr d, e)),
      eng_startDownload =
        (\<lambda>e url opts.
           if url \<in> set (refused e) then (Inl runtime_error, e)
           else (let d = \<lparr>getDid = ''gid:'' @ url, getStatus = K_ACTIVE, getCompletedLength = 0,
                           getTotalLength = 0, getDownloadSpeed = 0, getPath_d = []\<rparr>
                 in (Inr d, e\<lparr>known := known e @ [d]\<rparr>))),
      eng_updateStatus =
        (\<lambda>e d force. (case find (\<lambda>x. getDid x = getDid d) (known e) of
                         None \<Rightarrow> Inl runtime_error | Some x \<Rightarrow> Inr x, e)),
      eng_pauseDownload =
        (\<lambda>e d. if getDid d \<in> set (completed e) then (Inl AriaError, e)
                else (Inr (), e\<lparr>known := map (\<lambda>x. if getDid x = getDid d
                                                     then x\<lparr>getStatus := K_PAUSED\<rparr> else x) (known e)\<rparr>)),
      eng_resumeDownload =
        (\<lambda>e d. (Inr (), e\<lparr>known := map (\<lambda>x. if getDid x = getDid d
                                               then x\<lparr>getStatus := K_ACTIVE\<rparr> else x) (known e)\<rparr>)),
      eng_cancelDownload =
        (\<lambda>e d. if getDid d \<in> set (completed e) then (Inl AriaError, e)
                else (Inr (), e\<lparr>known := filter (\<lambda>x. getDid x \<noteq> getDid d) (known e)\<rparr>))\<rparr>"


definition plain_storage :: "nat \<Rightarrow> storage" where
  "plain_storage free =
     \<lparr>isDir = (\<lambda>d. d = ''/zims''), isWritable = (\<lambda>d. d = ''/zims''),
      bytesAvailable = (\<lambda>d. of_nat free)\<rparr>"

text \<open>
  A book \<open>B\<close> of 1,000,000,000 bytes whose download the engine knows as
  \<open>gid1\<close>, a library that holds it, and a download manager that tracks it.
\<close>

definition book_B :: Book where
  "book_B =
     \<lparr>getId = ''B'', getDownloadId = ''gid1'', getUrl = ''http://example.org/B.zim'',
      getPath = ''/zims/B.zim'', getSize = 1000000000\<rparr>"

text \<open>
  A second book, \<open>A\<close>, whose download \<open>gid0\<close> the engine does not know.
\<close>

definition book_A :: Book where
  "book_A =
     \<lparr>getId = ''A'', getDownloadId = ''gid0'', getUrl = ''http://example.org/A.zim'',
      getPath = ''/zims/A.zim'', getSize = 5\<rparr>"

definition library_of :: "Book list \<Rightarrow> world Library" where
  "library_of books =
     \<lparr>m_library = \<lparr>catalog = books, archives = [], entries = []\<rparr>,
      m_libraryDirectory = ''/lib'', m_monitorDirZims = [], effects = []\<rparr>"

definition library_in :: "world \<Rightarrow> string list \<Rightarrow> world Library" where
  "library_in w recorded =
     \<lparr>m_library = w, m_libraryDirectory = ''/lib'', m_monitorDirZims = recorded, effects = []\<rparr>"

definition manager_of :: "Book list \<Rightarrow> aria option \<Rightarrow> Downloads \<Rightarrow> (world, aria) DownloadManager" where
  "manager_of books eng downloads =
     \<lparr>mp_library = library_of books, mp_downloader = eng, m_downloads = downloads, emitted = []\<rparr>"

definition download_gid1 :: "StatusResult \<Rightarrow> Download" where
  "download_gid1 status =
     \<lparr>getDid = ''gid1'', getStatus = status, getCompletedLength = 250000000,
      getTotalLength = 1000000000, getDownloadSpeed = 4096, getPath_d = ''/zims/B.zim''\<rparr>"

definition aria_of :: "Download list \<Rightarrow> string list \<Rightarrow> aria" where
  "aria_of downloads done = \<lparr>known = downloads, refused = [''http://example.org/refused.zim''], completed = done\<rparr>"

section \<open>Size formatting\<close>

lemma length_units: "length units = 7"
  by (simp add: units_def)

text \<open>
  The loop on a finite, non-negative value, started at index \<open>k\<close>: it divides
  by 1024 once for each index it passes, stops below 1024 or at index 7, and
  never leaves a value below 1 once it has divided.
\<close>

lemma convertToUnits_loop_Fin:
  "k \<le> 7 \<Longrightarrow> 0 \<le> r \<Longrightarrow>
   \<exists>s i. convertToUnits_loop (Fin r) k = (Fin s, i) \<and> k \<le> i \<and> i \<le> 7
      \<and> s = r / 1024 ^ (i - k) \<and> (i = k \<or> 1 \<le> s) \<and> (s < 1024 \<or> i = 7)"
proof (induction "Fin r" k arbitrary: r rule: convertToUnits_loop.induct)
  case (1 unitIndex)
  show ?case
  proof (cases "1024 \<le> r \<and> unitIndex < 7")
    case False
    then show ?thesis using 1(2)
      by (subst convertToUnits_loop.simps) (auto simp: length_units)
  next
    case True
    then have c: "ge_1024 (Fin r) \<and> unitIndex < length units"
      by (simp add: length_units)
    have "\<exists>s i. convertToUnits_loop (Fin (r / 1024)) (unitIndex + 1) = (Fin s, i)
        \<and> unitIndex + 1 \<le> i \<and> i \<le> 7
        \<and> s = (r / 1024) / 1024 ^ (i - (unitIndex + 1))
        \<and> (i = unitIndex + 1 \<or> 1 \<le> s) \<and> (s < 1024 \<or> i = 7)"
      using 1(1)[of "r / 1024"] c True 1(3) by simp
    then obtain s i where h:
      "convertToUnits_loop (Fin (r / 1024)) (unitIndex + 1) = (Fin s, i)"
      "unitIndex + 1 \<le> i" "i \<le> 7"
      "s = (r / 1024) / 1024 ^ (i - (unitIndex + 1))"
      "i = unitIndex + 1 \<or> 1 \<le> s" "s < 1024 \<or> i = 7"
      by blast
    have e: "convertToUnits_loop (Fin r) unitIndex = (Fin s, i)"
      using c h(1) by (subst convertToUnits_loop.simps) simp
    have "i - unitIndex = Suc (i - (unitIndex + 1))"
      using h(2) by simp
    then have p: "(1024::rat) ^ (i - unitIndex) = 1024 * 1024 ^ (i - (unitIndex + 1))"
      by simp
    have one: "1 \<le> s"
    proof (cases "i = unitIndex + 1")
      case True
      then have "s = r / 1024" using h(4) by simp
      then show ?thesis using \<open>1024 \<le> r \<and> unitIndex < 7\<close> by simp
    next
      case False
      then show ?thesis using h(5) by simp
    qed
    show ?thesis using e h p one by auto
  qed
qed


text \<open>From \<open>2^70\<close> bytes on the loop ends at index 7, one past the last unit.\<close>

lemma convertToUnits_from_2_70:
  assumes "2 ^ 70 \<le> r"
  shows "convertToUnits N (Fin r) = Inl index_out_of_range"
proof -
  have "0 \<le> r" using assms by (rule order_trans[rotated]) simp
  then obtain s i where h: "convertToUnits_loop (Fin r) 0 = (Fin s, i)" "i \<le> 7"
      "s = r / 1024 ^ i" "s < 1024 \<or> i = 7"
    using convertToUnits_loop_Fin[of 0 r] by auto
  have "i = 7"
  proof (rule ccontr)
    assume "i \<noteq> 7"
    then have i: "i < 7" and s: "s < 1024" using h(2,4) by auto
    have "(1024::rat) ^ i * 1024 = 1024 ^ Suc i" by simp
    also have "\<dots> \<le> 1024 ^ 7" using i by (intro power_increasing) auto
    finally have "(1024::rat) ^ i * 1024 \<le> r" using assms by simp
    then have "1024 \<le> r / 1024 ^ i" by (simp add: pos_le_divide_eq mult.commute)
    then show False using s h(3) by simp
  qed
  then show ?thesis using h(1)
    by (simp add: convertToUnits_def length_units)
qed

text \<open>
  At \<open>2^70\<close> bytes (1024 EB) the loop, whose test is
  \<open>unitIndex < units.size()\<close>, divides seven times and ends with the value 1
  and the index 7. No counter of the engine reaches this value.
\<close>

lemma convertToUnits_at_2_70:
  "convertToUnits_loop (Fin (2 ^ 70)) 0 = (Fin 1, 7) \<and> length units = 7
   \<and> convertToUnits N (Fin (2 ^ 70)) = Inl index_out_of_range"
  by (simp add: convertToUnits_def units_def convertToUnits_loop.simps)




section \<open>The percentage of a snapshot\<close>

text \<open>
  C8. The claim: for every engine-reported download info the update computes a
  percentage between 0 and 100, and the division of the completed length by the
  total length is never undefined. An engine reports the total length 0 until it
  knows the size of the file. With the completed length 0 as well, the quotient
  \<open>0.0 / 0.0\<close> is NaN, it stays NaN through the multiplication and through the
  text \<open>nan\<close>, and NaN is the percentage of the snapshot; with a completed length
  above 0 the percentage is infinite.
\<close>

theorem update_zero_totalLength:
  "update N \<lparr>info_status = ''active'', info_completedLength = 0, info_totalLength = 0,
             info_downloadSpeed = 0, info_path = p\<rparr>
     = Inr \<lparr>percentComplete = NaN,
            completedSizeText = number_g3 N 0 @ '' bytes'',
            downloadSpeedText = number_g3 N 0 @ '' bytes/s'',
            paused = False\<rparr>
   \<and> update N \<lparr>info_status = ''active'', info_completedLength = 5, info_totalLength = 0,
               info_downloadSpeed = 0, info_path = p\<rparr>
     = Inr \<lparr>percentComplete = PInf,
            completedSizeText = number_g3 N 5 @ '' bytes'',
            downloadSpeedText = number_g3 N 0 @ '' bytes/s'',
            paused = False\<rparr>"
  by (simp add: update_def toDouble_def QString_number_def QString_toDouble_def
      convertToUnits_def units_def convertToUnits_loop.simps)

section \<open>The poll cycle\<close>

lemmas example_defs =
  plain_archive_engine_def plain_download_engine_def manager_of_def library_of_def
  aria_of_def book_B_def download_gid1_def getBookById_def DownloadState_default_def

lemma getDownloadInfo_keeps:
  "getDownloadInfo K D dm b = (q, dm1) \<Longrightarrow>
   m_downloads dm1 = m_downloads dm \<and> emitted dm1 = emitted dm \<and> mp_library dm1 = mp_library dm"
  by (auto simp: getDownloadInfo_def split: sum.splits option.splits prod.splits)

text \<open>
  The loop from any state over any list of keys: the registry and the library
  are as before, and the signals added are about the keys visited, in their
  order, one for each key when the loop runs to its end.
\<close>

lemma updateDownloads_loop_signals:
  "updateDownloads_loop K D dm ks = (r, dm') \<Longrightarrow>
   m_downloads dm' = m_downloads dm \<and> mp_library dm' = mp_library dm \<and>
   (\<exists>new. emitted dm' = emitted dm @ new \<and> map about new = take (length new) ks
      \<and> (r = Inr () \<longrightarrow> length new = length ks))"
proof (induction ks arbitrary: dm)
  case Nil
  then show ?case by auto
next
  case (Cons b rest)
  obtain q dm1 where q: "getDownloadInfo K D dm b = (q, dm1)"
    by (cases "getDownloadInfo K D dm b")
  note k = getDownloadInfo_keeps[OF q]
  show ?case
  proof (cases q)
    case (Inl e)
    show ?thesis
    proof (cases "is_exception e")
      case True
      then have "updateDownloads_loop K D (emit_signal (downloadDisappeared b) dm1) rest = (r, dm')"
        using Cons.prems q Inl by simp
      from Cons.IH[OF this] obtain new where
        "m_downloads dm' = m_downloads dm" "mp_library dm' = mp_library dm"
        "emitted dm' = emitted dm @ downloadDisappeared b # new"
        "map about new = take (length new) rest"
        "r = Inr () \<longrightarrow> length new = length rest"
        using k by (auto simp: emit_signal_def)
      then show ?thesis
        by (intro conjI exI[of _ "downloadDisappeared b # new"]) auto
    next
      case False
      then show ?thesis using Cons.prems q Inl k by (auto simp: is_exception_def)
    qed
  next
    case (Inr info)
    then have "updateDownloads_loop K D (emit_signal (downloadUpdated b info) dm1) rest = (r, dm')"
      using Cons.prems q by simp
    from Cons.IH[OF this] obtain new where
      "m_downloads dm' = m_downloads dm" "mp_library dm' = mp_library dm"
      "emitted dm' = emitted dm @ downloadUpdated b info # new"
      "map about new = take (length new) rest"
      "r = Inr () \<longrightarrow> length new = length rest"
      using k by (auto simp: emit_signal_def)
    then show ?thesis
      by (intro conjI exI[of _ "downloadUpdated b info # new"]) auto
  qed
qed

lemma removeDownload_drops:
  "bookId \<notin> set (Downloads_keys (m_downloads (removeDownload dm bookId)))"
  by (simp add: removeDownload_def Downloads_keys_def Downloads_remove_def delete_notin_dom)

text \<open>
  C2, as stated, fails: the claim has the coordinator drop the id of a download
  whose status query failed, so that the next poll cycle does not query it
  again. Book \<open>B\<close> is tracked and the engine does not know its download: the
  cycle emits \<open>downloadDisappeared\<close> for \<open>B\<close> and leaves \<open>B\<close> among the keys of the
  registry, and the next cycle queries \<open>B\<close> and emits the signal again.
\<close>

theorem updateDownloads_drops_counterexample:
  "Downloads_keys (m_downloads (snd (updateDownloads plain_archive_engine plain_download_engine
        (manager_of [book_B] (Some (aria_of [] [])) [(''B'', DownloadState_default)]))))
     = [''B'']
   \<and> emitted (snd (updateDownloads plain_archive_engine plain_download_engine
        (snd (updateDownloads plain_archive_engine plain_download_engine
          (manager_of [book_B] (Some (aria_of [] [])) [(''B'', DownloadState_default)])))))
     = [downloadDisappeared ''B'', downloadDisappeared ''B'']"
  by (simp add: example_defs getDownloadInfo_def emit_signal_def is_exception_def
      Downloads_keys_def updateDownloads_def)

text \<open>The loop over a list of keys in two parts.\<close>

lemma updateDownloads_loop_append:
  "updateDownloads_loop K D dm (xs @ ys) =
     (case updateDownloads_loop K D dm xs of
        (Inl e, dm1) \<Rightarrow> (Inl e, dm1)
      | (Inr u, dm1) \<Rightarrow> updateDownloads_loop K D dm1 ys)"
  by (induction xs arbitrary: dm) (auto split: prod.splits sum.splits)

text \<open>
  C2, amended. Take any tracked book id, with the keys that the poll cycle
  visits \<open>before\<close> it and the \<open>rest\<close> after it, and let the cycle have reached
  it in state \<open>dm1\<close>. The signal the cycle emits at this key's position is
  decided by this key's own status query in that state: \<open>downloadDisappeared\<close>
  for the book when the query raises an exception, \<open>downloadUpdated\<close> with the
  queried info when it succeeds. The signals of the earlier keys stay as they
  were, a cycle that runs to its end has emitted one signal for each key, and
  the cycle never changes the registry: the next cycle visits the same keys, and
  an id leaves the registry through \<open>removeDownload\<close>.
\<close>

theorem updateDownloads_each_key:
  assumes "updateDownloads_loop K D dm (before @ bookId # rest) = (r, dm')"
    and "updateDownloads_loop K D dm before = (Inr (), dm1)"
    and "getDownloadInfo K D dm1 bookId = (q, dm2)"
  shows "m_downloads dm' = m_downloads dm
     \<and> length (emitted dm1) = length (emitted dm) + length before
     \<and> take (length (emitted dm1)) (emitted dm') = emitted dm1
     \<and> (\<forall>e. q = Inl e \<and> is_exception e
          \<longrightarrow> emitted dm' ! (length (emitted dm) + length before) = downloadDisappeared bookId)
     \<and> (\<forall>downloadInfo. q = Inr downloadInfo
          \<longrightarrow> emitted dm' ! (length (emitted dm) + length before)
                = downloadUpdated bookId downloadInfo)
     \<and> (\<forall>e. q = Inl e \<and> \<not> is_exception e \<longrightarrow> r = Inl e \<and> emitted dm' = emitted dm1)
     \<and> (r = Inr () \<longrightarrow> length (emitted dm') = length (emitted dm) + length before + 1 + length rest)
     \<and> Downloads_keys (m_downloads (snd (updateDownloads K D dm))) = Downloads_keys (m_downloads dm)
     \<and> (\<forall>b. b \<notin> set (Downloads_keys (m_downloads (removeDownload dm b))))"
proof -
  have tl: "updateDownloads_loop K D dm1 (bookId # rest) = (r, dm')"
    using assms(1,2) by (simp add: updateDownloads_loop_append)
  note p = updateDownloads_loop_signals[OF assms(2)]
  note t = updateDownloads_loop_signals[OF tl]
  note k = getDownloadInfo_keeps[OF assms(3)]
  have a: "m_downloads dm' = m_downloads dm" using p t by simp
  have l: "length (emitted dm1) = length (emitted dm) + length before"
    using p by auto
  have pre: "take (length (emitted dm1)) (emitted dm') = emitted dm1"
    using t by auto
  have c: "emitted dm' ! (length (emitted dm) + length before) = downloadDisappeared bookId"
    if "q = Inl e" "is_exception e" for e
  proof -
    have "updateDownloads_loop K D (emit_signal (downloadDisappeared bookId) dm2) rest = (r, dm')"
      using tl assms(3) that by simp
    from updateDownloads_loop_signals[OF this] k l
    show ?thesis by (auto simp: emit_signal_def nth_append)
  qed
  have d: "emitted dm' ! (length (emitted dm) + length before) = downloadUpdated bookId downloadInfo"
    if "q = Inr downloadInfo" for downloadInfo
  proof -
    have "updateDownloads_loop K D (emit_signal (downloadUpdated bookId downloadInfo) dm2) rest
            = (r, dm')"
      using tl assms(3) that by simp
    from updateDownloads_loop_signals[OF this] k l
    show ?thesis by (auto simp: emit_signal_def nth_append)
  qed
  have f: "r = Inl e \<and> emitted dm' = emitted dm1" if "q = Inl e" "\<not> is_exception e" for e
    using tl assms(3) that k by simp
  have g: "length (emitted dm') = length (emitted dm) + length before + 1 + length rest"
    if "r = Inr ()"
    using t l that by auto
  have e: "Downloads_keys (m_downloads (snd (updateDownloads K D dm)))
             = Downloads_keys (m_downloads dm)"
    using updateDownloads_loop_signals[of K D dm "Downloads_keys (m_downloads dm)"
        "fst (updateDownloads K D dm)" "snd (updateDownloads K D dm)"]
    by (simp add: updateDownloads_def)
  show ?thesis using a l pre c d f g e removeDownload_drops by blast
qed

text \<open>
  The theorem at work, on a registry with two books: the engine does not know
  the download of \<open>A\<close> and knows that of \<open>B\<close>, a quarter done. The cycle emits
  \<open>downloadDisappeared\<close> for \<open>A\<close>, then \<open>downloadUpdated\<close> for \<open>B\<close> with
  these figures, and the registry is as before.
\<close>

theorem updateDownloads_each_key_witness:
  "updateDownloads_loop plain_archive_engine plain_download_engine
      (manager_of [book_A, book_B] (Some (aria_of [download_gid1 K_ACTIVE] []))
         [(''A'', DownloadState_default), (''B'', DownloadState_default)]) [''A'']
     = (Inr (),
        (manager_of [book_A, book_B] (Some (aria_of [download_gid1 K_ACTIVE] []))
           [(''A'', DownloadState_default), (''B'', DownloadState_default)])
          \<lparr>emitted := [downloadDisappeared ''A'']\<rparr>)
   \<and> fst (getDownloadInfo plain_archive_engine plain_download_engine
        (manager_of [book_A, book_B] (Some (aria_of [download_gid1 K_ACTIVE] []))
           [(''A'', DownloadState_default), (''B'', DownloadState_default)]) ''A'')
       = Inl out_of_range
   \<and> fst (getDownloadInfo plain_archive_engine plain_download_engine
        ((manager_of [book_A, book_B] (Some (aria_of [download_gid1 K_ACTIVE] []))
           [(''A'', DownloadState_default), (''B'', DownloadState_default)])
          \<lparr>emitted := [downloadDisappeared ''A'']\<rparr>) ''B'')
       = Inr \<lparr>info_status = ''active'', info_completedLength = 250000000,
              info_totalLength = 1000000000, info_downloadSpeed = 4096,
              info_path = ''/zims/B.zim''\<rparr>
   \<and> emitted (snd (updateDownloads_loop plain_archive_engine plain_download_engine
        (manager_of [book_A, book_B] (Some (aria_of [download_gid1 K_ACTIVE] []))
           [(''A'', DownloadState_default), (''B'', DownloadState_default)]) [''A'', ''B'']))
       = [downloadDisappeared ''A'',
          downloadUpdated ''B''
            \<lparr>info_status = ''active'', info_completedLength = 250000000,
             info_totalLength = 1000000000, info_downloadSpeed = 4096,
             info_path = ''/zims/B.zim''\<rparr>]
   \<and> m_downloads (snd (updateDownloads_loop plain_archive_engine plain_download_engine
        (manager_of [book_A, book_B] (Some (aria_of [download_gid1 K_ACTIVE] []))
           [(''A'', DownloadState_default), (''B'', DownloadState_default)]) [''A'', ''B'']))
       = [(''A'', DownloadState_default), (''B'', DownloadState_default)]"
proof -
  let ?dm = "manager_of [book_A, book_B] (Some (aria_of [download_gid1 K_ACTIVE] []))
               [(''A'', DownloadState_default), (''B'', DownloadState_default)]"
  let ?dm1 = "?dm\<lparr>emitted := [downloadDisappeared ''A'']\<rparr>"
  let ?info = "\<lparr>info_status = ''active'', info_completedLength = 250000000,
                info_totalLength = 1000000000, info_downloadSpeed = 4096,
                info_path = ''/zims/B.zim''\<rparr>"
  let ?run = "updateDownloads_loop plain_archive_engine plain_download_engine ?dm [''A'', ''B'']"
  have qa: "getDownloadInfo plain_archive_engine plain_download_engine ?dm ''A''
              = (Inl out_of_range, ?dm)"
    by (simp add: example_defs book_A_def getDownloadInfo_def)
  have first: "updateDownloads_loop plain_archive_engine plain_download_engine ?dm [''A'']
              = (Inr (), ?dm1)"
    by (simp add: qa is_exception_def, simp add: emit_signal_def manager_of_def)
  have qb: "getDownloadInfo plain_archive_engine plain_download_engine ?dm1 ''B''
              = (Inr ?info, ?dm1)"
    by (simp add: example_defs book_A_def getDownloadInfo_def)
  have h: "updateDownloads_loop plain_archive_engine plain_download_engine ?dm ([''A''] @ ''B'' # [])
             = (fst ?run, snd ?run)"
    by simp
  have h0: "updateDownloads_loop plain_archive_engine plain_download_engine ?dm ([] @ ''A'' # [''B''])
             = (fst ?run, snd ?run)"
    by simp
  have z: "updateDownloads_loop plain_archive_engine plain_download_engine ?dm [] = (Inr (), ?dm)"
    by simp
  have m: "m_downloads ?dm = [(''A'', DownloadState_default), (''B'', DownloadState_default)]"
    "emitted ?dm = []"
    by (simp_all add: manager_of_def)
  note TB = updateDownloads_each_key[OF h first qb]
  note TA = updateDownloads_each_key[OF h0 z qa]
  have e1': "emit_signal (downloadDisappeared ''A'') ?dm = ?dm1"
    by (simp add: emit_signal_def manager_of_def)
  have r: "fst ?run = Inr ()"
    by (simp add: qa is_exception_def e1' qb)
  have len: "length (emitted (snd ?run)) = 2"
    using TB r m by simp
  have e0: "emitted (snd ?run) ! 0 = downloadDisappeared ''A''"
    using TA m by (simp add: is_exception_def)
  have e1: "emitted (snd ?run) ! 1 = downloadUpdated ''B'' ?info"
    using TB m by simp
  have em: "emitted (snd ?run) = [downloadDisappeared ''A'', downloadUpdated ''B'' ?info]"
    using len e0 e1 by (auto simp: list_eq_iff_nth_eq less_Suc_eq numeral_2_eq_2)
  have reg: "m_downloads (snd ?run) = m_downloads ?dm"
    using TB by simp
  show ?thesis using first qa qb em reg m by simp
qed

section \<open>Cancelling and pausing\<close>

text \<open>
  C3, as stated, fails: the claim has \<open>cancelDownload\<close> return true in every case
  but an empty download id and a completion-race error. Book \<open>B\<close> has the download
  id \<open>gid1\<close>, and the engine no longer knows that download: the lookup of the
  handle, which is outside the \<open>try\<close>, raises, and \<open>cancelDownload\<close> ends with that
  exception instead of returning.
\<close>

theorem cancelDownload_true_counterexample:
  "fst (cancelDownload plain_archive_engine plain_download_engine
          (manager_of [book_B] (Some (aria_of [] [])) [(''B'', DownloadState_default)]) ''B'')
     = Inl out_of_range"
  by (simp add: example_defs cancelDownload_def)

text \<open>
  C3, amended. \<open>cancelDownload\<close> returns false when the book's download id is
  empty, and false when the engine's cancel call raises \<open>AriaError\<close>, which is
  not propagated; it returns true exactly when the engine's cancel call
  succeeds. An exception of the book lookup or of the handle lookup goes to the
  caller. In no case is the registry changed.
\<close>

theorem cancelDownload_result:
  assumes "cancelDownload K D dm bookId = (r, dm')"
  shows "m_downloads dm' = m_downloads dm
     \<and> (\<forall>book. getBookById K (mp_library dm) bookId = Inr book \<and> getDownloadId book = []
            \<longrightarrow> r = Inr False \<and> dm' = dm)
     \<and> (\<forall>book eng download eng1 eng2.
            getBookById K (mp_library dm) bookId = Inr book \<and> getDownloadId book \<noteq> []
            \<and> mp_downloader dm = Some eng
            \<and> eng_getDownload D eng (getDownloadId book) = (Inr download, eng1)
            \<and> eng_cancelDownload D eng1 download = (Inl AriaError, eng2)
            \<longrightarrow> r = Inr False)
     \<and> (r = Inr True \<longleftrightarrow>
          (\<exists>book eng download eng1 eng2.
            getBookById K (mp_library dm) bookId = Inr book \<and> getDownloadId book \<noteq> []
            \<and> mp_downloader dm = Some eng
            \<and> eng_getDownload D eng (getDownloadId book) = (Inr download, eng1)
            \<and> eng_cancelDownload D eng1 download = (Inr (), eng2)))
     \<and> (\<forall>e. getBookById K (mp_library dm) bookId = Inl e \<longrightarrow> r = Inl e)
     \<and> (\<forall>book eng e eng1.
            getBookById K (mp_library dm) bookId = Inr book \<and> getDownloadId book \<noteq> []
            \<and> mp_downloader dm = Some eng
            \<and> eng_getDownload D eng (getDownloadId book) = (Inl e, eng1)
            \<longrightarrow> r = Inl e)"
  using assms
  by (auto simp: cancelDownload_def split: sum.splits option.splits prod.splits if_splits)

text \<open>
  The theorem at work: the download of \<open>B\<close> has completed behind a handle that
  still says active, the engine's cancel call raises \<open>AriaError\<close>, and
  \<open>cancelDownload\<close> returns false with the registry as it was.
\<close>

theorem cancelDownload_result_witness:
  "getBookById plain_archive_engine
      (mp_library (manager_of [book_B] (Some (aria_of [download_gid1 K_ACTIVE] [''gid1'']))
                     [(''B'', DownloadState_default)])) ''B'' = Inr book_B
   \<and> getDownloadId book_B \<noteq> []
   \<and> eng_cancelDownload plain_download_engine (aria_of [download_gid1 K_ACTIVE] [''gid1''])
        (download_gid1 K_ACTIVE)
       = (Inl AriaError, aria_of [download_gid1 K_ACTIVE] [''gid1''])
   \<and> fst (cancelDownload plain_archive_engine plain_download_engine
          (manager_of [book_B] (Some (aria_of [download_gid1 K_ACTIVE] [''gid1'']))
             [(''B'', DownloadState_default)]) ''B'') = Inr False
   \<and> m_downloads (snd (cancelDownload plain_archive_engine plain_download_engine
          (manager_of [book_B] (Some (aria_of [download_gid1 K_ACTIVE] [''gid1'']))
             [(''B'', DownloadState_default)]) ''B'')) = [(''B'', DownloadState_default)]"
proof -
  let ?eng = "aria_of [download_gid1 K_ACTIVE] [''gid1'']"
  let ?dm = "manager_of [book_B] (Some ?eng) [(''B'', DownloadState_default)]"
  let ?run = "cancelDownload plain_archive_engine plain_download_engine ?dm ''B''"
  have h: "?run = (fst ?run, snd ?run)" by simp
  have b: "getBookById plain_archive_engine (mp_library ?dm) ''B'' = Inr book_B"
    "getDownloadId book_B \<noteq> []" "mp_downloader ?dm = Some ?eng"
    "m_downloads ?dm = [(''B'', DownloadState_default)]"
    by (simp_all add: example_defs)
  have g: "eng_getDownload plain_download_engine ?eng (getDownloadId book_B)
             = (Inr (download_gid1 K_ACTIVE), ?eng)"
    by (simp add: example_defs)
  have c: "eng_cancelDownload plain_download_engine ?eng (download_gid1 K_ACTIVE)
             = (Inl AriaError, ?eng)"
    by (simp add: example_defs)
  note T = cancelDownload_result[OF h]
  have m: "m_downloads (snd ?run) = m_downloads ?dm"
    using T by (rule conjunct1)
  have f: "fst ?run = Inr False"
    using T[THEN conjunct2, THEN conjunct2, THEN conjunct1, rule_format,
        of book_B ?eng "download_gid1 K_ACTIVE" ?eng ?eng] b g c
    by simp
  show ?thesis using m f b c by simp
qed

text \<open>
  C4. For a book of the library: \<open>pauseDownload\<close> returns with nothing raised and
  the state unchanged when the book's download id is empty. When the id is not
  empty and the engine has the download: with a status other than active the
  engine is left as the lookup left it, no pause having been issued; with the
  status active the pause is issued, and when it raises \<open>AriaError\<close> the
  function still returns normally.
\<close>

theorem pauseDownload_races:
  assumes "getBookById K (mp_library dm) bookId = Inr book"
  shows "(getDownloadId book = [] \<longrightarrow> pauseDownload K D dm bookId = (Inr (), dm))
     \<and> (\<forall>eng download eng1.
           getDownloadId book \<noteq> [] \<and> mp_downloader dm = Some eng
           \<and> eng_getDownload D eng (getDownloadId book) = (Inr download, eng1)
           \<longrightarrow>
             (getStatus download \<noteq> K_ACTIVE
                \<longrightarrow> pauseDownload K D dm bookId = (Inr (), dm\<lparr>mp_downloader := Some eng1\<rparr>))
           \<and> (\<forall>eng2. getStatus download = K_ACTIVE
                  \<and> eng_pauseDownload D eng1 download = (Inl AriaError, eng2)
                \<longrightarrow> pauseDownload K D dm bookId = (Inr (), dm\<lparr>mp_downloader := Some eng2\<rparr>))
           \<and> (\<forall>eng2. getStatus download = K_ACTIVE
                  \<and> eng_pauseDownload D eng1 download = (Inr (), eng2)
                \<longrightarrow> pauseDownload K D dm bookId = (Inr (), dm\<lparr>mp_downloader := Some eng2\<rparr>)))"
  using assms
  by (auto simp: pauseDownload_def)

text \<open>
  The theorem at work: the download of \<open>B\<close> has completed behind a handle that
  still says active; the pause raises \<open>AriaError\<close> and \<open>pauseDownload\<close> returns
  normally.
\<close>

theorem pauseDownload_races_witness:
  "getBookById plain_archive_engine
      (mp_library (manager_of [book_B] (Some (aria_of [download_gid1 K_ACTIVE] [''gid1'']))
                     [(''B'', DownloadState_default)])) ''B'' = Inr book_B
   \<and> getDownloadId book_B \<noteq> []
   \<and> getStatus (download_gid1 K_ACTIVE) = K_ACTIVE
   \<and> eng_pauseDownload plain_download_engine (aria_of [download_gid1 K_ACTIVE] [''gid1''])
        (download_gid1 K_ACTIVE)
       = (Inl AriaError, aria_of [download_gid1 K_ACTIVE] [''gid1''])
   \<and> fst (pauseDownload plain_archive_engine plain_download_engine
          (manager_of [book_B] (Some (aria_of [download_gid1 K_ACTIVE] [''gid1'']))
             [(''B'', DownloadState_default)]) ''B'') = Inr ()"
proof -
  let ?eng = "aria_of [download_gid1 K_ACTIVE] [''gid1'']"
  let ?dm = "manager_of [book_B] (Some ?eng) [(''B'', DownloadState_default)]"
  have b: "getBookById plain_archive_engine (mp_library ?dm) ''B'' = Inr book_B"
    by (simp add: example_defs)
  have n: "getDownloadId book_B \<noteq> []" "mp_downloader ?dm = Some ?eng"
    "getStatus (download_gid1 K_ACTIVE) = K_ACTIVE"
    by (simp_all add: example_defs)
  have g: "eng_getDownload plain_download_engine ?eng (getDownloadId book_B)
             = (Inr (download_gid1 K_ACTIVE), ?eng)"
    by (simp add: example_defs)
  have c: "eng_pauseDownload plain_download_engine ?eng (download_gid1 K_ACTIVE)
             = (Inl AriaError, ?eng)"
    by (simp add: example_defs)
  have "pauseDownload plain_archive_engine plain_download_engine ?dm ''B''
          = (Inr (), ?dm\<lparr>mp_downloader := Some ?eng\<rparr>)"
    using pauseDownload_races[OF b, of plain_download_engine, THEN conjunct2, rule_format,
        of ?eng "download_gid1 K_ACTIVE" ?eng, THEN conjunct2, THEN conjunct1, rule_format,
        of ?eng] n g c
    by simp
  then show ?thesis using b n c by simp
qed

section \<open>Starting a download\<close>

lemma checkThatBookCanBeSaved_Inr:
  "checkThatBookCanBeSaved S book dir = Inr u \<longleftrightarrow>
     isDir S dir \<and> isWritable S dir \<and> bytesAvailable S dir \<noteq> - 1
     \<and> getSize book \<le> bytesAvailable S dir"
  by (auto simp: checkThatBookCanBeSaved_def)

lemma Downloads_set_registers:
  "map_of (Downloads_set bookId d m) bookId = Some d"
  by (simp add: Downloads_set_def update_conv')

text \<open>
  C5. \<open>startDownload\<close> fails with the download-unavailable error when there is no
  downloader; then, in this order, with the storage error for a missing
  directory, for a directory that is not writable, and for free space below the
  size of the book (the free space as the unsigned number the code compares);
  the four errors differ. With the checks passed, an exception of the engine's
  start call becomes the download-unavailable error, and on success the result
  is the engine's download id and the registry holds a fresh snapshot for the
  book's id.
\<close>

theorem startDownload_outcomes:
  "(mp_downloader dm = None
      \<longrightarrow> startDownload D S dm book dir = (Inl DownloadUnavailableError, dm))
   \<and> (mp_downloader dm \<noteq> None \<and> \<not> isDir S dir
      \<longrightarrow> startDownload D S dm book dir
          = (Inl (KiwixAppError (gt ''download-storage-error'') (gt ''download-dir-missing'')), dm))
   \<and> (mp_downloader dm \<noteq> None \<and> isDir S dir \<and> \<not> isWritable S dir
      \<longrightarrow> startDownload D S dm book dir
          = (Inl (KiwixAppError (gt ''download-storage-error'') (gt ''download-dir-not-writable'')),
             dm))
   \<and> (mp_downloader dm \<noteq> None \<and> isDir S dir \<and> isWritable S dir
        \<and> bytesAvailable S dir < getSize book
      \<longrightarrow> startDownload D S dm book dir
          = (Inl (KiwixAppError (gt ''download-storage-error'') (gt ''download-storage-error-text'')),
             dm))
   \<and> distinct [DownloadUnavailableError,
        KiwixAppError (gt ''download-storage-error'') (gt ''download-dir-missing''),
        KiwixAppError (gt ''download-storage-error'') (gt ''download-dir-not-writable''),
        KiwixAppError (gt ''download-storage-error'') (gt ''download-storage-error-text'')]
   \<and> (\<forall>eng e eng1. mp_downloader dm = Some eng
        \<and> checkThatBookCanBeSaved S book dir = Inr ()
        \<and> eng_startDownload D eng (getUrl book) [(''dir'', dir)] = (Inl e, eng1)
        \<and> is_exception e
      \<longrightarrow> fst (startDownload D S dm book dir) = Inl DownloadUnavailableError)
   \<and> (\<forall>eng d eng1. mp_downloader dm = Some eng
        \<and> checkThatBookCanBeSaved S book dir = Inr ()
        \<and> eng_startDownload D eng (getUrl book) [(''dir'', dir)] = (Inr d, eng1)
      \<longrightarrow> startDownload D S dm book dir
            = (Inr (getDid d),
               dm\<lparr>mp_downloader := Some eng1,
                  m_downloads := Downloads_set (getId book) DownloadState_default (m_downloads dm)\<rparr>)
          \<and> map_of (m_downloads (snd (startDownload D S dm book dir))) (getId book)
              = Some DownloadState_default)"
  by (auto simp: startDownload_def downloadingFunctionalityAvailable_def
      checkThatBookCanBeSaved_def DownloadUnavailableError_def Downloads_set_registers)

text \<open>
  The theorem at work, on the scenario of the specification: book \<open>B\<close> of
  1,000,000,000 bytes goes into a directory with 2,000,000,000 bytes free, and
  the registry gains the fresh snapshot for \<open>B\<close>; with 500,000,000 bytes free the
  call fails with the storage error.
\<close>

theorem startDownload_outcomes_witness:
  "checkThatBookCanBeSaved (plain_storage 2000000000) book_B ''/zims'' = Inr ()
   \<and> startDownload plain_download_engine (plain_storage 2000000000)
        (manager_of [book_B] (Some (aria_of [] [])) []) book_B ''/zims''
      = (Inr ''gid:http://example.org/B.zim'',
         manager_of [book_B]
           (Some (aria_of [\<lparr>getDid = ''gid:http://example.org/B.zim'', getStatus = K_ACTIVE,
                             getCompletedLength = 0, getTotalLength = 0, getDownloadSpeed = 0,
                             getPath_d = []\<rparr>] []))
           [(''B'', DownloadState_default)])
   \<and> bytesAvailable (plain_storage 500000000) ''/zims'' < getSize book_B
   \<and> startDownload plain_download_engine (plain_storage 500000000)
        (manager_of [book_B] (Some (aria_of [] [])) []) book_B ''/zims''
      = (Inl (KiwixAppError (gt ''download-storage-error'') (gt ''download-storage-error-text'')),
         manager_of [book_B] (Some (aria_of [] [])) [])"
proof -
  let ?dm = "manager_of [book_B] (Some (aria_of [] [])) []"
  let ?d = "\<lparr>getDid = ''gid:http://example.org/B.zim'', getStatus = K_ACTIVE,
             getCompletedLength = 0, getTotalLength = 0, getDownloadSpeed = 0, getPath_d = []\<rparr>"
  have c: "checkThatBookCanBeSaved (plain_storage 2000000000) book_B ''/zims'' = Inr ()"
    by (simp add: checkThatBookCanBeSaved_def plain_storage_def book_B_def)
  have e: "mp_downloader ?dm = Some (aria_of [] [])"
    by (simp add: manager_of_def)
  have s: "eng_startDownload plain_download_engine (aria_of [] []) (getUrl book_B)
             [(''dir'', ''/zims'')] = (Inr ?d, aria_of [?d] [])"
    by (simp add: example_defs Let_def)
  have ok: "startDownload plain_download_engine (plain_storage 2000000000) ?dm book_B ''/zims''
      = (Inr (getDid ?d),
         ?dm\<lparr>mp_downloader := Some (aria_of [?d] []),
             m_downloads := Downloads_set (getId book_B) DownloadState_default (m_downloads ?dm)\<rparr>)"
    using startDownload_outcomes[of ?dm plain_download_engine "plain_storage 2000000000"
        book_B "''/zims''", THEN conjunct2, THEN conjunct2, THEN conjunct2, THEN conjunct2,
        THEN conjunct2, THEN conjunct2, rule_format, of "aria_of [] []" ?d "aria_of [?d] []"]
      c e s
    by simp
  have l: "bytesAvailable (plain_storage 500000000) ''/zims'' < getSize book_B"
    "isDir (plain_storage 500000000) ''/zims''" "isWritable (plain_storage 500000000) ''/zims''"
    by (simp_all add: plain_storage_def book_B_def)
  have ko: "startDownload plain_download_engine (plain_storage 500000000) ?dm book_B ''/zims''
      = (Inl (KiwixAppError (gt ''download-storage-error'') (gt ''download-storage-error-text'')),
         ?dm)"
    using startDownload_outcomes[of ?dm plain_download_engine "plain_storage 500000000"
        book_B "''/zims''", THEN conjunct2, THEN conjunct2, THEN conjunct2, THEN conjunct1]
      e l
    by simp
  show ?thesis using c ok l(1) ko
    by (simp add: manager_of_def book_B_def Downloads_set_def)
qed

text \<open>
  C10. A call of \<open>startDownload\<close> that fails, for whatever reason, leaves the
  registry (and the signals and the library) as they were. A call that succeeds
  has had the engine accept the download, and the registry is then the old one
  with the fresh snapshot set for the book's id.
\<close>

theorem startDownload_atomic_on_failure:
  assumes "startDownload D S dm book dir = (r, dm')"
  shows "(\<forall>e. r = Inl e \<longrightarrow>
            m_downloads dm' = m_downloads dm \<and> emitted dm' = emitted dm
            \<and> mp_library dm' = mp_library dm)
     \<and> (\<forall>downloadId. r = Inr downloadId \<longrightarrow>
           (\<exists>eng d eng1. mp_downloader dm = Some eng
              \<and> checkThatBookCanBeSaved S book dir = Inr ()
              \<and> eng_startDownload D eng (getUrl book) [(''dir'', dir)] = (Inr d, eng1)
              \<and> downloadId = getDid d
              \<and> m_downloads dm'
                  = Downloads_set (getId book) DownloadState_default (m_downloads dm)))
     \<and> (m_downloads dm' \<noteq> m_downloads dm \<longrightarrow> (\<exists>downloadId. r = Inr downloadId))"
  using assms
  by (auto simp: startDownload_def downloadingFunctionalityAvailable_def Let_def
      split: sum.splits option.splits prod.splits if_splits)

text \<open>
  The theorem at work: the engine refuses the url of the book, the call fails
  with the download-unavailable error, and the registry still holds its one
  entry and no entry for the book.
\<close>

theorem startDownload_atomic_on_failure_witness:
  "startDownload plain_download_engine (plain_storage 2000000000)
      (manager_of [] (Some (aria_of [] [])) [(''A'', DownloadState_default)])
      (book_B\<lparr>getUrl := ''http://example.org/refused.zim''\<rparr>) ''/zims''
     = (Inl DownloadUnavailableError,
        manager_of [] (Some (aria_of [] [])) [(''A'', DownloadState_default)])
   \<and> m_downloads (snd (startDownload plain_download_engine (plain_storage 2000000000)
      (manager_of [] (Some (aria_of [] [])) [(''A'', DownloadState_default)])
      (book_B\<lparr>getUrl := ''http://example.org/refused.zim''\<rparr>) ''/zims''))
     = [(''A'', DownloadState_default)]"
proof -
  let ?dm = "manager_of [] (Some (aria_of [] [])) [(''A'', DownloadState_default)]"
  let ?book = "book_B\<lparr>getUrl := ''http://example.org/refused.zim''\<rparr>"
  let ?run = "startDownload plain_download_engine (plain_storage 2000000000) ?dm ?book ''/zims''"
  have h: "?run = (Inl DownloadUnavailableError, ?dm)"
    by (simp add: startDownload_def downloadingFunctionalityAvailable_def
        checkThatBookCanBeSaved_def plain_storage_def is_exception_def example_defs)
  have m: "m_downloads (snd ?run) = m_downloads ?dm"
    using startDownload_atomic_on_failure[of plain_download_engine "plain_storage 2000000000"
        ?dm ?book "''/zims''" "fst ?run" "snd ?run", THEN conjunct1, rule_format,
        of DownloadUnavailableError] h
    by simp
  show ?thesis using h m by (simp add: manager_of_def)
qed

section \<open>Reconciling the monitored directory\<close>

lemma QSet_minus_set: "set (QSet_minus a b) = set a - set b"
  by (auto simp: QSet_minus_def)

lemma QSet_fromList_set: "set (QSet_fromList xs) = set xs \<and> distinct (QSet_fromList xs)"
  by (simp add: QSet_fromList_def)

text \<open>
  The two differences are the set differences of the directory's files and the
  recorded files, each way.
\<close>

lemma addedZims_of_set:
  "set (addedZims_of K lib dir) = set (newDir_of K lib dir) - set (m_monitorDirZims lib)"
  by (simp add: addedZims_of_def QSet_minus_set QSet_fromList_set)

lemma removedZims_of_set:
  "set (removedZims_of K lib dir) = set (m_monitorDirZims lib) - set (newDir_of K lib dir)"
  by (simp add: removedZims_of_def QSet_minus_set QSet_fromList_set)

lemma reconcile_abc_acd:
  "QSet_minus (QSet_fromList [''a'', ''c'', ''d'']) (QSet_fromList [''a'', ''b'', ''c'']) = [''d'']
   \<and> QSet_minus (QSet_fromList [''a'', ''b'', ''c'']) (QSet_fromList [''a'', ''c'', ''d'']) = [''b'']"
  by (simp add: QSet_minus_def QSet_fromList_def)

lemma add_loop_keeps:
  "m_monitorDirZims (add_loop K lib ps) = m_monitorDirZims lib"
  by (induction ps arbitrary: lib)
     (auto simp: Manager_addBookFromPath_def Manager_addBookFromPathAndGetId_def
        addBookToLibrary_def emit_def split: option.splits prod.splits)

lemma remove_loop_keeps:
  "remove_loop K lib ps = (r, lib') \<Longrightarrow>
   m_monitorDirZims lib' = m_monitorDirZims lib \<and> effects lib' = effects lib"
  by (induction ps arbitrary: lib)
     (auto simp: removeBookFromLibraryById_def split: sum.splits)

text \<open>
  Whatever else happens, the recorded list is replaced by the files of the
  directory.
\<close>

lemma loadMonitorDir_records:
  "m_monitorDirZims (snd (loadMonitorDir K lib dir)) = newDir_of K lib dir"
proof -
  let ?lib2 = "add_loop K (setMonitorDirZims lib (newDir_of K lib dir)) (addedZims_of K lib dir)"
  obtain r lib3 where r: "remove_loop K ?lib2 (removedZims_of K lib dir) = (r, lib3)"
    by (cases "remove_loop K ?lib2 (removedZims_of K lib dir)")
  have "m_monitorDirZims lib3 = newDir_of K lib dir"
    using remove_loop_keeps[OF r] by (simp add: add_loop_keeps setMonitorDirZims_def)
  then show ?thesis using r
    by (cases r) (simp_all add: loadMonitorDir_def Let_def save_def emit_def)
qed

text \<open>
  When the function returns, the last things it has done are the signal and the
  two files; when it ends with an exception, it has done neither.
\<close>

lemma loadMonitorDir_returns:
  assumes "loadMonitorDir K lib dir = (r, lib')"
  shows "(r = Inr () \<longrightarrow>
           (\<exists>before. effects lib' = before @
              [booksChanged,
               writeToFile (appendToDirectory (m_libraryDirectory lib') ''library.xml''),
               writeBookmarksToFile (appendToDirectory (m_libraryDirectory lib')
                                       ''library.bookmarks.xml'')]))
       \<and> (\<forall>e. r = Inl e \<longrightarrow>
            effects lib' = effects (add_loop K (setMonitorDirZims lib (newDir_of K lib dir))
                                      (addedZims_of K lib dir)))"
proof -
  let ?lib2 = "add_loop K (setMonitorDirZims lib (newDir_of K lib dir)) (addedZims_of K lib dir)"
  obtain q lib3 where q: "remove_loop K ?lib2 (removedZims_of K lib dir) = (q, lib3)"
    by (cases "remove_loop K ?lib2 (removedZims_of K lib dir)")
  show ?thesis using assms q remove_loop_keeps[OF q]
    by (cases q) (auto simp: loadMonitorDir_def Let_def save_def emit_def)
qed

text \<open>
  C6. The claim: for every recorded set and every listing, the pass removes the
  book of each removed file, persists the library and notifies the observers.
  A file \<open>x.zim\<close> that is not a readable archive appears in the directory: the
  pass records it and no book is added for it. The file then disappears: the
  next pass finds it removed and looks its book up by path, outside any
  \<open>try\<close>; the lookup raises \<open>std::out_of_range\<close> and the pass ends there, with
  no signal and nothing saved.
\<close>

theorem loadMonitorDir_unreadable_file:
  "loadMonitorDir plain_archive_engine
      (library_in \<lparr>catalog = [], archives = [], entries = [(''/zims'', [''x.zim''])]\<rparr> [])
      ''/zims''
     = (Inr (),
        (library_in \<lparr>catalog = [], archives = [], entries = [(''/zims'', [''x.zim''])]\<rparr>
           [''/zims/x.zim''])
          \<lparr>effects := [booksChanged, writeToFile ''/lib/library.xml'',
                       writeBookmarksToFile ''/lib/library.bookmarks.xml'']\<rparr>)
   \<and> loadMonitorDir plain_archive_engine
      (library_in \<lparr>catalog = [], archives = [], entries = [(''/zims'', [])]\<rparr> [''/zims/x.zim''])
      ''/zims''
     = (Inl out_of_range,
        library_in \<lparr>catalog = [], archives = [], entries = [(''/zims'', [])]\<rparr> [])"
  by (simp add: loadMonitorDir_def newDir_of_def addedZims_of_def removedZims_of_def
      QSet_fromList_def QSet_minus_def QDir_separator_def setMonitorDirZims_def
      Manager_addBookFromPath_def Manager_addBookFromPathAndGetId_def
      plain_archive_engine_def library_in_def save_def emit_def appendToDirectory_def)

section \<open>Opening a book from a path\<close>

text \<open>
  C7, as stated, fails: the claim has a second call with the same path change
  nothing. The archive \<open>/zims/B.zim\<close> is a copy of a book whose id the
  catalog already has under the path \<open>/backup/B.zim\<close>, and the engine keeps the
  book it has. No book has the path \<open>/zims/B.zim\<close>, before or after the first
  call: both calls return the id \<open>B\<close>, and the second saves and signals again.
\<close>

theorem openBookFromPath_copy_counterexample:
  "openBookFromPath plain_archive_engine
      (library_in \<lparr>catalog = [book_B\<lparr>getPath := ''/backup/B.zim''\<rparr>],
                    archives = [(''/zims/B.zim'', book_B)], entries = []\<rparr> [])
      ''/zims/B.zim''
     = (Inr ''B'',
        (library_in \<lparr>catalog = [book_B\<lparr>getPath := ''/backup/B.zim''\<rparr>],
                      archives = [(''/zims/B.zim'', book_B)], entries = []\<rparr> [])
          \<lparr>effects := [writeToFile ''/lib/library.xml'',
                       writeBookmarksToFile ''/lib/library.bookmarks.xml'', booksChanged]\<rparr>)
   \<and> openBookFromPath plain_archive_engine
      ((library_in \<lparr>catalog = [book_B\<lparr>getPath := ''/backup/B.zim''\<rparr>],
                      archives = [(''/zims/B.zim'', book_B)], entries = []\<rparr> [])
          \<lparr>effects := [writeToFile ''/lib/library.xml'',
                       writeBookmarksToFile ''/lib/library.bookmarks.xml'', booksChanged]\<rparr>)
      ''/zims/B.zim''
     = (Inr ''B'',
        (library_in \<lparr>catalog = [book_B\<lparr>getPath := ''/backup/B.zim''\<rparr>],
                      archives = [(''/zims/B.zim'', book_B)], entries = []\<rparr> [])
          \<lparr>effects := [writeToFile ''/lib/library.xml'',
                       writeBookmarksToFile ''/lib/library.bookmarks.xml'', booksChanged,
                       writeToFile ''/lib/library.xml'',
                       writeBookmarksToFile ''/lib/library.bookmarks.xml'', booksChanged]\<rparr>)"
  by (simp add: openBookFromPath_def Manager_addBookFromPathAndGetId_def
      kiwix_addBookToLibrary_def plain_archive_engine_def library_in_def book_B_def
      save_def emit_def appendToDirectory_def)

text \<open>
  C7, amended. With a path that a book of the catalog has,
  \<open>openBookFromPath\<close> returns that book's id and changes nothing. With a path
  that no book has, it has the engine read the book from the file and register
  it once, saves, signals, and returns the book's id. So a second call with the
  same path returns the same id and changes nothing whenever the engine finds a
  book of that id under the path after the first call. When no book has the
  path and the engine cannot read a book from it, the manager returns the empty
  id and the call fails with \<open>std::invalid_argument\<close>, the library object
  unchanged; a book read with an empty id has been handed to the engine when
  the call fails, and nothing is saved or signalled.
\<close>

theorem openBookFromPath_cases:
  "(\<forall>book. kx_getBookByPath K (m_library lib) zimPath = Inr book
       \<longrightarrow> openBookFromPath K lib zimPath = (Inr (getId book), lib))
   \<and> (\<forall>book ret w. kx_getBookByPath K (m_library lib) zimPath = Inl out_of_range
         \<and> kx_readBookFromPath K (m_library lib) zimPath = Some book
         \<and> kx_addBook K (m_library lib) book = (ret, w) \<and> getId book \<noteq> []
       \<longrightarrow> openBookFromPath K lib zimPath
             = (Inr (getId book),
                lib\<lparr>m_library := w,
                    effects := effects lib @
                      [writeToFile (appendToDirectory (m_libraryDirectory lib) ''library.xml''),
                       writeBookmarksToFile
                         (appendToDirectory (m_libraryDirectory lib) ''library.bookmarks.xml''),
                       booksChanged]\<rparr>))
   \<and> (kx_getBookByPath K (m_library lib) zimPath = Inl out_of_range
         \<and> kx_readBookFromPath K (m_library lib) zimPath = None
       \<longrightarrow> openBookFromPath K lib zimPath = (Inl (invalid_argument ''invalid zim file''), lib))
   \<and> (\<forall>book ret w. kx_getBookByPath K (m_library lib) zimPath = Inl out_of_range
         \<and> kx_readBookFromPath K (m_library lib) zimPath = Some book
         \<and> kx_addBook K (m_library lib) book = (ret, w) \<and> getId book = []
       \<longrightarrow> openBookFromPath K lib zimPath
             = (Inl (invalid_argument ''invalid zim file''), lib\<lparr>m_library := w\<rparr>))
   \<and> (\<forall>id1 lib1 found. openBookFromPath K lib zimPath = (Inr id1, lib1)
         \<and> kx_getBookByPath K (m_library lib1) zimPath = Inr found \<and> getId found = id1
       \<longrightarrow> openBookFromPath K lib1 zimPath = (Inr id1, lib1))"
  by (auto simp: openBookFromPath_def Manager_addBookFromPathAndGetId_def
      kiwix_addBookToLibrary_def save_def emit_def)

text \<open>
  The theorem at work: the archive \<open>/zims/B.zim\<close> holds book \<open>B\<close> and the library
  is empty. The first call registers \<open>B\<close>, saves and signals; the second returns
  \<open>B\<close> again and leaves everything as the first call left it. A path with no
  readable archive fails and changes nothing.
\<close>

theorem openBookFromPath_cases_witness:
  "openBookFromPath plain_archive_engine
      (library_in \<lparr>catalog = [], archives = [(''/zims/B.zim'', book_B)], entries = []\<rparr> [])
      ''/zims/B.zim''
     = (Inr ''B'',
        (library_in \<lparr>catalog = [book_B], archives = [(''/zims/B.zim'', book_B)], entries = []\<rparr> [])
          \<lparr>effects := [writeToFile ''/lib/library.xml'',
                       writeBookmarksToFile ''/lib/library.bookmarks.xml'', booksChanged]\<rparr>)
   \<and> openBookFromPath plain_archive_engine
      ((library_in \<lparr>catalog = [book_B], archives = [(''/zims/B.zim'', book_B)], entries = []\<rparr> [])
          \<lparr>effects := [writeToFile ''/lib/library.xml'',
                       writeBookmarksToFile ''/lib/library.bookmarks.xml'', booksChanged]\<rparr>)
      ''/zims/B.zim''
     = (Inr ''B'',
        (library_in \<lparr>catalog = [book_B], archives = [(''/zims/B.zim'', book_B)], entries = []\<rparr> [])
          \<lparr>effects := [writeToFile ''/lib/library.xml'',
                       writeBookmarksToFile ''/lib/library.bookmarks.xml'', booksChanged]\<rparr>)
   \<and> openBookFromPath plain_archive_engine
      (library_in \<lparr>catalog = [], archives = [(''/zims/B.zim'', book_B)], entries = []\<rparr> [])
      ''/zims/none.zim''
     = (Inl (invalid_argument ''invalid zim file''),
        library_in \<lparr>catalog = [], archives = [(''/zims/B.zim'', book_B)], entries = []\<rparr> [])"
proof -
  let ?w = "\<lparr>catalog = [], archives = [(''/zims/B.zim'', book_B)], entries = []\<rparr>"
  let ?w1 = "\<lparr>catalog = [book_B], archives = [(''/zims/B.zim'', book_B)], entries = []\<rparr>"
  let ?lib = "library_in ?w []"
  let ?lib1 = "(library_in ?w1 [])
          \<lparr>effects := [writeToFile ''/lib/library.xml'',
                       writeBookmarksToFile ''/lib/library.bookmarks.xml'', booksChanged]\<rparr>"
  have a: "kx_getBookByPath plain_archive_engine (m_library ?lib) ''/zims/B.zim'' = Inl out_of_range"
    "kx_readBookFromPath plain_archive_engine (m_library ?lib) ''/zims/B.zim'' = Some book_B"
    "kx_addBook plain_archive_engine (m_library ?lib) book_B = (True, ?w1)"
    "getId book_B \<noteq> []" "getId book_B = ''B''"
    by (simp_all add: plain_archive_engine_def library_in_def book_B_def)
  have first: "openBookFromPath plain_archive_engine ?lib ''/zims/B.zim'' = (Inr ''B'', ?lib1)"
    using openBookFromPath_cases[of plain_archive_engine ?lib "''/zims/B.zim''",
        THEN conjunct2, THEN conjunct1, rule_format, of book_B True ?w1] a
    by (simp add: library_in_def appendToDirectory_def)
  have f: "kx_getBookByPath plain_archive_engine (m_library ?lib1) ''/zims/B.zim'' = Inr book_B"
    by (simp add: plain_archive_engine_def library_in_def book_B_def)
  have second: "openBookFromPath plain_archive_engine ?lib1 ''/zims/B.zim'' = (Inr ''B'', ?lib1)"
    using openBookFromPath_cases[of plain_archive_engine ?lib "''/zims/B.zim''",
        THEN conjunct2, THEN conjunct2, THEN conjunct2, THEN conjunct2, rule_format,
        of "''B''" ?lib1 book_B] first f a(5)
    by simp
  have n: "kx_getBookByPath plain_archive_engine (m_library ?lib) ''/zims/none.zim''
             = Inl out_of_range"
    "kx_readBookFromPath plain_archive_engine (m_library ?lib) ''/zims/none.zim'' = None"
    by (simp_all add: plain_archive_engine_def library_in_def)
  have third: "openBookFromPath plain_archive_engine ?lib ''/zims/none.zim''
                 = (Inl (invalid_argument ''invalid zim file''), ?lib)"
    using openBookFromPath_cases[of plain_archive_engine ?lib "''/zims/none.zim''",
        THEN conjunct2, THEN conjunct2, THEN conjunct1] n
    by simp
  show ?thesis using first second third by simp
qed

section \<open>Two invocations of loadMonitorDir at once\<close>

lemmas step_defs = step_def pool_of_def invoke_def

text \<open>
  An invocation that runs alone from its first statement to its last does what
  \<open>loadMonitorDir\<close> does: it leaves the library that the function returns,
  ends with the exception the function ends with, if any, and leaves no mutex
  locked.
\<close>

lemma run_alone:
  "\<exists>schedule s. set schedule \<subseteq> {0}
     \<and> run K (pool_of lib [dir]) schedule = Some s
     \<and> library s = snd (loadMonitorDir K lib dir)
     \<and> position (invocations s ! 0) = finished
     \<and> raised (invocations s ! 0)
         = (case fst (loadMonitorDir K lib dir) of Inl e \<Rightarrow> Some e | Inr u \<Rightarrow> None)
     \<and> locked s = []"
proof -
  let ?lib2 = "add_loop K (setMonitorDirZims lib (newDir_of K lib dir)) (addedZims_of K lib dir)"
  obtain q lib3 where q: "remove_loop K ?lib2 (removedZims_of K lib dir) = (q, lib3)"
    by (cases "remove_loop K ?lib2 (removedZims_of K lib dir)")
  show ?thesis
  proof (cases q)
    case (Inl e)
    show ?thesis
      by (rule exI[of _ "[0, 0, 0, 0, 0, 0, 0, 0]"])
         (simp add: step_defs loadMonitorDir_def addedZims_of_def removedZims_of_def
            q[unfolded addedZims_of_def removedZims_of_def] Inl)
  next
    case (Inr u)
    show ?thesis
      by (rule exI[of _ "[0, 0, 0, 0, 0, 0, 0, 0, 0]"])
         (simp add: step_defs loadMonitorDir_def addedZims_of_def removedZims_of_def
            q[unfolded addedZims_of_def removedZims_of_def] Inr)
  qed
qed

text \<open>
  C9. The claim: two concurrent invocations of the pass are serialized by a
  mutual-exclusion lock, shared with the other mutators of the library, held
  around the whole read-diff-write sequence. The mutex is a local variable of
  \<open>loadMonitorDir\<close>: each invocation constructs its own and locks that one, so
  neither waits for the other. After two steps of each, both invocations hold
  their locks and are inside the sequence at once, whatever the library, the
  engine and the directories. With the plain engine and one new archive in the
  directory, two invocations that both take their differences before either
  records the directory both add the book, and the observers get a signal that
  no run of one invocation after the other gives them.
\<close>

theorem loadMonitorDir_invocations_overlap:
  "run K (pool_of lib [dir1, dir2]) [0, 0, 1, 1]
     = Some \<lparr>library = lib, locked = [1, 0], constructed = 2,
             invocations = [(invoke dir1)\<lparr>position := at_entryList, mutex := 0\<rparr>,
                            (invoke dir2)\<lparr>position := at_entryList, mutex := 1\<rparr>]\<rparr>
   \<and> in_sequence ((invoke dir1)\<lparr>position := at_entryList, mutex := 0\<rparr>)
   \<and> in_sequence ((invoke dir2)\<lparr>position := at_entryList, mutex := 1\<rparr>)
   \<and> map_option (\<lambda>s. effects (library s))
        (run plain_archive_engine
           (pool_of (library_in \<lparr>catalog = [], archives = [(''/zims/B.zim'', book_B)],
                                  entries = [(''/zims'', [''B.zim''])]\<rparr> [])
              [''/zims'', ''/zims''])
           [0, 0, 0, 0, 1, 1, 1, 1, 0, 0, 0, 0, 0, 1, 1, 1, 1, 1])
      = Some [booksChanged, booksChanged, writeToFile ''/lib/library.xml'',
              writeBookmarksToFile ''/lib/library.bookmarks.xml'',
              booksChanged, booksChanged, writeToFile ''/lib/library.xml'',
              writeBookmarksToFile ''/lib/library.bookmarks.xml'']
   \<and> effects (snd (loadMonitorDir plain_archive_engine
        (snd (loadMonitorDir plain_archive_engine
           (library_in \<lparr>catalog = [], archives = [(''/zims/B.zim'', book_B)],
                         entries = [(''/zims'', [''B.zim''])]\<rparr> []) ''/zims'')) ''/zims''))
      = [booksChanged, booksChanged, writeToFile ''/lib/library.xml'',
         writeBookmarksToFile ''/lib/library.bookmarks.xml'',
         booksChanged, writeToFile ''/lib/library.xml'',
         writeBookmarksToFile ''/lib/library.bookmarks.xml'']"
proof -
  have overlap: "run K (pool_of lib [dir1, dir2]) [0, 0, 1, 1]
     = Some \<lparr>library = lib, locked = [1, 0], constructed = 2,
             invocations = [(invoke dir1)\<lparr>position := at_entryList, mutex := 0\<rparr>,
                            (invoke dir2)\<lparr>position := at_entryList, mutex := 1\<rparr>]\<rparr>"
    by (simp add: step_defs)
  have inside: "in_sequence ((invoke dir)\<lparr>position := at_entryList, mutex := m\<rparr>)" for dir m
    by (simp add: in_sequence_def)
  have interleaved: "map_option (\<lambda>s. effects (library s))
        (run plain_archive_engine
           (pool_of (library_in \<lparr>catalog = [], archives = [(''/zims/B.zim'', book_B)],
                                  entries = [(''/zims'', [''B.zim''])]\<rparr> [])
              [''/zims'', ''/zims''])
           [0, 0, 0, 0, 1, 1, 1, 1, 0, 0, 0, 0, 0, 1, 1, 1, 1, 1])
      = Some [booksChanged, booksChanged, writeToFile ''/lib/library.xml'',
              writeBookmarksToFile ''/lib/library.bookmarks.xml'',
              booksChanged, booksChanged, writeToFile ''/lib/library.xml'',
              writeBookmarksToFile ''/lib/library.bookmarks.xml'']"
    by (simp add: step_defs newDir_of_def QSet_fromList_def QSet_minus_def QDir_separator_def
        setMonitorDirZims_def Manager_addBookFromPath_def Manager_addBookFromPathAndGetId_def
        addBookToLibrary_def plain_archive_engine_def library_in_def book_B_def save_def
        emit_def appendToDirectory_def)
  have serial: "effects (snd (loadMonitorDir plain_archive_engine
        (snd (loadMonitorDir plain_archive_engine
           (library_in \<lparr>catalog = [], archives = [(''/zims/B.zim'', book_B)],
                         entries = [(''/zims'', [''B.zim''])]\<rparr> []) ''/zims'')) ''/zims''))
      = [booksChanged, booksChanged, writeToFile ''/lib/library.xml'',
         writeBookmarksToFile ''/lib/library.bookmarks.xml'',
         booksChanged, writeToFile ''/lib/library.xml'',
         writeBookmarksToFile ''/lib/library.bookmarks.xml'']"
    by (simp add: loadMonitorDir_def newDir_of_def addedZims_of_def removedZims_of_def
        QSet_fromList_def QSet_minus_def QDir_separator_def setMonitorDirZims_def
        Manager_addBookFromPath_def Manager_addBookFromPathAndGetId_def addBookToLibrary_def
        plain_archive_engine_def library_in_def book_B_def save_def emit_def
        appendToDirectory_def)
  show ?thesis using overlap inside interleaved serial by simp
qed

end
